theory Spec2Isabelle
  imports Complex_Main "HOL-Library.Sublist"
begin

section \<open>Python values, exceptions and observable effects\<close>

text \<open>
  The integration handles decoded JSON throughout (the body of an HTTP response, the frame
  of the websocket). A decoded value is a \<open>json\<close>; a Python \<open>dict\<close> is an association
  list read with \<open>map_of\<close>. Python's \<open>int\<close> and \<open>float\<close> are both carried as a rational
  number: every operation the integration applies to a number (\<open>==\<close>, \<open>>\<close>, \<open>-\<close>, \<open>/\<close>,
  \<open>round\<close>, truth value) is the operation on the numeric value, and the binary rounding of a
  \<open>float\<close> is left out.
\<close>

datatype json =
    JNull
  | JBool bool
  | JNum rat
  | JStr string
  | JArr "json list"
  | JObj "(string \<times> json) list"

datatype failure =
    FailedWithStatus int
  | FailedWithError
  | FailedAfterRetries int

text \<open>
  The exceptions of the program. All but \<open>CancelledError\<close> derive from Python's
  \<open>Exception\<close>; \<open>CancelledError\<close> derives from \<open>BaseException\<close> only.
\<close>

datatype exn =
    FellerApiException failure
  | ClientError
  | KeyError string
  | TypeError
  | UnboundLocalError string
  | JSONDecodeError
  | TimeoutError
  | ConnectionClosed
  | GaiError
  | ConnectionRefusedError
  | OSError
  | CancelledError

fun is_Exception :: "exn \<Rightarrow> bool" where
  "is_Exception CancelledError = False"
| "is_Exception _ = True"

text \<open>\<open>k in v\<close> for a string \<open>k\<close>: key of a dict, element of a list, substring of a string.\<close>

fun py_in :: "string \<Rightarrow> json \<Rightarrow> exn + bool" where
  "py_in k (JObj kvs) = Inr (map_of kvs k \<noteq> None)"
| "py_in k (JArr xs) = Inr (JStr k \<in> set xs)"
| "py_in k (JStr s) = Inr (sublist k s)"
| "py_in k _ = Inl TypeError"

text \<open>\<open>v[k]\<close> for a string \<open>k\<close>.\<close>

fun py_getitem :: "json \<Rightarrow> string \<Rightarrow> exn + json" where
  "py_getitem (JObj kvs) k = (case map_of kvs k of None \<Rightarrow> Inl (KeyError k) | Some v \<Rightarrow> Inr v)"
| "py_getitem _ k = Inl TypeError"

text \<open>The numeric value of a Python number; \<open>bool\<close> is a subclass of \<open>int\<close>.\<close>

fun py_num :: "json \<Rightarrow> rat option" where
  "py_num (JNum r) = Some r"
| "py_num (JBool b) = Some (if b then 1 else 0)"
| "py_num _ = None"

text \<open>\<open>v == s\<close> for a string literal \<open>s\<close>, and \<open>v == n\<close> for a number \<open>n\<close>.\<close>

fun py_eq_str :: "json \<Rightarrow> string \<Rightarrow> bool" where
  "py_eq_str (JStr t) s = (t = s)"
| "py_eq_str _ s = False"

definition py_eq_num :: "json \<Rightarrow> rat \<Rightarrow> bool" where
  "py_eq_num v n = (py_num v = Some n)"

text \<open>The truth value of \<open>if v:\<close>.\<close>

fun py_truthy :: "json \<Rightarrow> bool" where
  "py_truthy JNull = False"
| "py_truthy (JBool b) = b"
| "py_truthy (JNum r) = (r \<noteq> 0)"
| "py_truthy (JStr s) = (s \<noteq> [])"
| "py_truthy (JArr xs) = (xs \<noteq> [])"
| "py_truthy (JObj kvs) = (kvs \<noteq> [])"

text \<open>Python 3's \<open>round(x)\<close> with one argument: to the nearest integer, ties to even.\<close>

definition py_round :: "rat \<Rightarrow> int" where
  "py_round x =
     (let f = \<lfloor>x\<rfloor>; d = x - of_int f
      in if d < 1 / 2 then f
         else if 1 / 2 < d then f + 1
         else if even f then f else f + 1)"

datatype log_level = DEBUG | INFO | ERROR

datatype http_method = GET | PUT

text \<open>The endpoints the client formats: \<open>loads\<close>, \<open>hvacgroups\<close>, \<open>loads/{id}\<close>,
  \<open>hvacgroups/{id}\<close>, \<open>hvacgroups/{id}/target_state\<close>, \<open>loads/{id}/ctrl\<close>,
  \<open>loads/{id}/target_state\<close>.\<close>

datatype endpoint =
    Loads
  | Hvacgroups
  | LoadById int
  | HvacgroupById int
  | HvacgroupTargetState int
  | LoadCtrl int
  | LoadTargetState int

record request =
  req_host :: string
  req_bearer :: string
  req_endpoint :: endpoint
  req_method :: http_method
  req_json :: "json option"
  req_timeout :: int

text \<open>
  Everything the program does to the outside, in the order it does it: a log record (level
  and format string), a sleep (seconds), an HTTP request, the opening of a websocket, a
  receive and a ping on it, and the notification of the host platform
  (\<open>schedule_update_ha_state\<close>, with the identifier of the entity).
\<close>

datatype effect =
    Log log_level string
  | Sleep nat
  | HttpRequest request
  | WsConnect
  | WsRecv
  | WsPing
  | ScheduleUpdate int

type_synonym trace = "effect list"

fun sleeps_of :: "trace \<Rightarrow> nat list" where
  "sleeps_of [] = []"
| "sleeps_of (Sleep n # es) = n # sleeps_of es"
| "sleeps_of (e # es) = sleeps_of es"

fun requests_of :: "trace \<Rightarrow> request list" where
  "requests_of [] = []"
| "requests_of (HttpRequest r # es) = r # requests_of es"
| "requests_of (e # es) = requests_of es"

fun connects_of :: "trace \<Rightarrow> nat" where
  "connects_of [] = 0"
| "connects_of (WsConnect # es) = Suc (connects_of es)"
| "connects_of (e # es) = connects_of es"

fun recvs_of :: "trace \<Rightarrow> nat" where
  "recvs_of [] = 0"
| "recvs_of (WsRecv # es) = Suc (recvs_of es)"
| "recvs_of (e # es) = recvs_of es"

fun pings_of :: "trace \<Rightarrow> nat" where
  "pings_of [] = 0"
| "pings_of (WsPing # es) = Suc (pings_of es)"
| "pings_of (e # es) = pings_of es"

section \<open>The API client (feller\_client.py)\<close>

record FellerApiResult =
  status_code :: int
  data :: json

record FellerApiClient =
  host :: string
  apiKey :: string
  request_timeout_seconds :: int

text \<open>
  What the HTTP library does with a request: \<open>session.request\<close> raises, or there is a
  response with a status whose \<open>json()\<close> raises or yields the decoded body. The network
  answers the \<open>n\<close>-th request of a run (counting from 0) by \<open>net n request\<close>.
\<close>

datatype http_reply =
    Raises exn
  | Response int "exn + json"

type_synonym network = "nat \<Rightarrow> request \<Rightarrow> http_reply"

text \<open>The handler \<open>except aiohttp.ClientError\<close> around the whole request.\<close>

definition on_client_error :: "exn \<Rightarrow> trace \<Rightarrow> (exn + FellerApiResult) \<times> trace" where
  "on_client_error e tr =
     (if e = ClientError
      then (Inl (FellerApiException FailedWithError),
            tr @ [Log ERROR ''Wiser API request to endpoint %s with method %s failed: %s''])
      else (Inl e, tr))"

text \<open>The arguments of \<open>session.request\<close>: the URL \<open>http://{host}/api/{endpoint}\<close>, the
  bearer token of the \<open>authorization\<close> header, the method, the JSON body and the timeout.\<close>

definition build_request ::
  "FellerApiClient \<Rightarrow> endpoint \<Rightarrow> http_method \<Rightarrow> json option \<Rightarrow> request" where
  "build_request self ep method body =
     \<lparr>req_host = host self, req_bearer = apiKey self, req_endpoint = ep,
      req_method = method, req_json = body, req_timeout = request_timeout_seconds self\<rparr>"

definition send_request_async ::
  "network \<Rightarrow> FellerApiClient \<Rightarrow> endpoint \<Rightarrow> http_method \<Rightarrow> json option \<Rightarrow> trace
     \<Rightarrow> (exn + FellerApiResult) \<times> trace" where
  "send_request_async net self ep method body tr =
     (let rq = build_request self ep method body;
          tr1 = tr @ [Log DEBUG ''Sending request to %s''];
          reply = net (length (requests_of tr1)) rq;
          tr2 = tr1 @ [HttpRequest rq]
      in case reply of
           Raises e \<Rightarrow> on_client_error e tr2
         | Response status payload \<Rightarrow>
             if status \<ge> 400
             then (Inl (FellerApiException (FailedWithStatus status)),
                   tr2 @ [Log ERROR ''Wiser API request to endpoint %s with method %s was unsuccessful: response code %s''])
             else (case payload of
                     Inl e \<Rightarrow> on_client_error e tr2
                   | Inr d \<Rightarrow>
                       (case py_getitem d ''status'' of
                          Inl e \<Rightarrow> on_client_error e tr2
                        | Inr s \<Rightarrow>
                            if py_eq_str s ''success''
                            then (let tr3 = tr2 @ [Log DEBUG ''Wiser API request to endpoint %s with method %s was successful'']
                                  in case py_getitem d ''data'' of
                                       Inl e \<Rightarrow> on_client_error e tr3
                                     | Inr payload_data \<Rightarrow>
                                         (Inr \<lparr>status_code = status, data = payload_data\<rparr>, tr3))
                            else (Inl (FellerApiException (FailedWithStatus status)),
                                  tr2 @ [Log ERROR ''Wiser API request to endpoint %s with method %s was unsuccessful: response code %s'']))))"

text \<open>
  \<open>for i in range(retry_count)\<close>: the loop over the remaining values of \<open>i\<close>. Only a
  \<open>FellerApiException\<close> is caught; after the loop the exception of the exhausted retries
  is raised.
\<close>

fun retry_loop ::
  "network \<Rightarrow> FellerApiClient \<Rightarrow> endpoint \<Rightarrow> http_method \<Rightarrow> json option \<Rightarrow> int \<Rightarrow> nat list
     \<Rightarrow> trace \<Rightarrow> (exn + FellerApiResult) \<times> trace" where
  "retry_loop net self ep method body retry_count [] tr =
     (Inl (FellerApiException (FailedAfterRetries retry_count)), tr)"
| "retry_loop net self ep method body retry_count (i # rest) tr =
     (case send_request_async net self ep method body tr of
        (Inr r, tr') \<Rightarrow> (Inr r, tr')
      | (Inl (FellerApiException c), tr') \<Rightarrow>
          retry_loop net self ep method body retry_count rest (tr' @ [Sleep (i + 1)])
      | (Inl e, tr') \<Rightarrow> (Inl e, tr'))"

definition send_request_with_retry_async ::
  "network \<Rightarrow> FellerApiClient \<Rightarrow> endpoint \<Rightarrow> int \<Rightarrow> http_method \<Rightarrow> json option \<Rightarrow> trace
     \<Rightarrow> (exn + FellerApiResult) \<times> trace" where
  "send_request_with_retry_async net self ep retry_count method body tr =
     retry_loop net self ep method body retry_count [0..<nat retry_count] tr"

definition get_all_loads_async ::
  "network \<Rightarrow> FellerApiClient \<Rightarrow> trace \<Rightarrow> (exn + FellerApiResult) \<times> trace" where
  "get_all_loads_async net self tr = send_request_async net self Loads GET None tr"

definition get_all_hvac_groups_async ::
  "network \<Rightarrow> FellerApiClient \<Rightarrow> trace \<Rightarrow> (exn + FellerApiResult) \<times> trace" where
  "get_all_hvac_groups_async net self tr = send_request_async net self Hvacgroups GET None tr"

definition get_hvac_group_async ::
  "network \<Rightarrow> FellerApiClient \<Rightarrow> int \<Rightarrow> int \<Rightarrow> trace \<Rightarrow> (exn + FellerApiResult) \<times> trace" where
  "get_hvac_group_async net self group_id retry_count tr =
     send_request_with_retry_async net self (HvacgroupById group_id) retry_count GET None tr"

definition get_load_async ::
  "network \<Rightarrow> FellerApiClient \<Rightarrow> int \<Rightarrow> int \<Rightarrow> trace \<Rightarrow> (exn + FellerApiResult) \<times> trace" where
  "get_load_async net self load_id retry_count tr =
     send_request_with_retry_async net self (LoadById load_id) retry_count GET None tr"

definition set_hvac_group_temperature_async ::
  "network \<Rightarrow> FellerApiClient \<Rightarrow> int \<Rightarrow> json \<Rightarrow> trace \<Rightarrow> (exn + FellerApiResult) \<times> trace" where
  "set_hvac_group_temperature_async net self group_id target_temperature tr =
     send_request_async net self (HvacgroupTargetState group_id) PUT
       (Some (JObj [(''target_temperature'', target_temperature)])) tr"

definition set_hvac_group_state_async ::
  "network \<Rightarrow> FellerApiClient \<Rightarrow> int \<Rightarrow> bool \<Rightarrow> trace \<Rightarrow> (exn + FellerApiResult) \<times> trace" where
  "set_hvac_group_state_async net self group_id on tr =
     send_request_async net self (HvacgroupTargetState group_id) PUT
       (Some (JObj [(''on'', JBool on)])) tr"

definition send_load_ctrl_event_async ::
  "network \<Rightarrow> FellerApiClient \<Rightarrow> int \<Rightarrow> json \<Rightarrow> trace \<Rightarrow> (exn + FellerApiResult) \<times> trace" where
  "send_load_ctrl_event_async net self load_id body tr =
     send_request_async net self (LoadCtrl load_id) PUT (Some body) tr"

definition set_light_brightness_async ::
  "network \<Rightarrow> FellerApiClient \<Rightarrow> int \<Rightarrow> rat \<Rightarrow> trace \<Rightarrow> (exn + FellerApiResult) \<times> trace" where
  "set_light_brightness_async net self light_id brightness tr =
     send_request_async net self (LoadTargetState light_id) PUT
       (Some (JObj [(''bri'', JNum brightness)])) tr"

definition set_cover_level_async ::
  "network \<Rightarrow> FellerApiClient \<Rightarrow> int \<Rightarrow> rat \<Rightarrow> trace \<Rightarrow> (exn + FellerApiResult) \<times> trace" where
  "set_cover_level_async net self cover_id level tr =
     send_request_async net self (LoadTargetState cover_id) PUT
       (Some (JObj [(''level'', JNum level)])) tr"

section \<open>Device handles (light.py, cover.py, climate.py)\<close>

text \<open>Helpers for the expressions the handles evaluate on decoded data:
  \<open>d[k1][k2]...\<close>, \<open>v / n\<close> and \<open>v > n\<close> for a constant \<open>n\<close>, and \<open>kwargs.get(k, default)\<close>.\<close>

fun py_path :: "json \<Rightarrow> string list \<Rightarrow> exn + json" where
  "py_path v [] = Inr v"
| "py_path v (k # ks) = (case py_getitem v k of Inl e \<Rightarrow> Inl e | Inr u \<Rightarrow> py_path u ks)"

definition py_div :: "json \<Rightarrow> rat \<Rightarrow> exn + rat" where
  "py_div v n = (case py_num v of None \<Rightarrow> Inl TypeError | Some r \<Rightarrow> Inr (r / n))"

definition py_gt :: "json \<Rightarrow> rat \<Rightarrow> exn + bool" where
  "py_gt v n = (case py_num v of None \<Rightarrow> Inl TypeError | Some r \<Rightarrow> Inr (n < r))"

type_synonym kwargs = "(string \<times> rat) list"

definition kwargs_get :: "kwargs \<Rightarrow> string \<Rightarrow> rat \<Rightarrow> rat" where
  "kwargs_get kw k dflt = (case map_of kw k of None \<Rightarrow> dflt | Some v \<Rightarrow> v)"

text \<open>The keys of the host platform, imported by light.py and cover.py.\<close>

definition ATTR_BRIGHTNESS :: string where
  "ATTR_BRIGHTNESS = ''brightness''"

definition ATTR_POSITION :: string where
  "ATTR_POSITION = ''position''"

subsection \<open>Light\<close>

record FellerLight =
  light_wiser_id :: int
  light_is_on :: "bool option"
  light_brightness :: "rat option"
  light_client :: FellerApiClient
  light_type :: string

text \<open>The \<open>try\<close> block of the push update: \<open>message["state"]["flags"]["fading"] == 1\<close>, where
  a \<open>KeyError\<close> is passed over and any other exception propagates.\<close>

definition fading :: "json \<Rightarrow> exn + bool" where
  "fading state =
     (case py_path state [''flags'', ''fading''] of
        Inl (KeyError k) \<Rightarrow> Inr False
      | Inl e \<Rightarrow> Inl e
      | Inr f \<Rightarrow> Inr (py_eq_num f 1))"

definition light_update_from_websocket_message ::
  "json \<Rightarrow> FellerLight \<Rightarrow> trace \<Rightarrow> (exn + unit) \<times> FellerLight \<times> trace" where
  "light_update_from_websocket_message message self tr =
     (case py_in ''load'' message of
        Inl e \<Rightarrow> (Inl e, self, tr)
      | Inr False \<Rightarrow>
          (Inr (), self,
           tr @ [Log DEBUG ''No load in websocket message, skipping update of light with id %s''])
      | Inr True \<Rightarrow>
     (case py_getitem message ''load'' of
        Inl e \<Rightarrow> (Inl e, self, tr)
      | Inr load \<Rightarrow>
     (case py_in ''state'' load of
        Inl e \<Rightarrow> (Inl e, self, tr)
      | Inr False \<Rightarrow>
          (Inr (), self,
           tr @ [Log DEBUG ''No state in websocket message, skipping update of light with id %s''])
      | Inr True \<Rightarrow>
     (case py_getitem load ''state'' of
        Inl e \<Rightarrow> (Inl e, self, tr)
      | Inr state \<Rightarrow>
     (case fading state of
        Inl e \<Rightarrow> (Inl e, self, tr)
      | Inr True \<Rightarrow> (Inr (), self, tr)
      | Inr False \<Rightarrow>
     (case py_in ''bri'' state of
        Inl e \<Rightarrow> (Inl e, self, tr)
      | Inr False \<Rightarrow>
          (Inr (), self,
           tr @ [Log DEBUG ''No bri in websocket message, skipping update of light with id %s''])
      | Inr True \<Rightarrow>
     (case py_getitem state ''bri'' of
        Inl e \<Rightarrow> (Inl e, self, tr)
      | Inr bri \<Rightarrow>
          if bri = JNull
          then (Inr (), self\<lparr>light_brightness := Some 0, light_is_on := Some False\<rparr>,
                tr @ [ScheduleUpdate (light_wiser_id self)])
          else if py_eq_num bri 0
          then (Inr (), self\<lparr>light_is_on := Some False, light_brightness := Some 0\<rparr>,
                tr @ [ScheduleUpdate (light_wiser_id self)])
          else (case py_div bri (3922 / 100) of
                  Inl e \<Rightarrow> (Inl e, self, tr)
                | Inr b \<Rightarrow>
                    (Inr (), self\<lparr>light_brightness := Some b, light_is_on := Some True\<rparr>,
                     tr @ [ScheduleUpdate (light_wiser_id self)])))))))))"

text \<open>\<open>async_turn_on(**kwargs)\<close>. The read after the click uses the default retry count 5.\<close>

definition light_async_turn_on ::
  "network \<Rightarrow> kwargs \<Rightarrow> FellerLight \<Rightarrow> trace \<Rightarrow> (exn + unit) \<times> FellerLight \<times> trace" where
  "light_async_turn_on net kw self tr =
     (if kw = []
      then (case send_load_ctrl_event_async net (light_client self) (light_wiser_id self)
                   (JObj [(''button'', JStr ''on''), (''event'', JStr ''click'')]) tr of
              (Inl e, tr1) \<Rightarrow> (Inl e, self, tr1)
            | (Inr r0, tr1) \<Rightarrow>
                (let self1 = self\<lparr>light_is_on := Some True\<rparr>
                 in case get_load_async net (light_client self1) (light_wiser_id self1) 5 tr1 of
                      (Inl e, tr2) \<Rightarrow> (Inl e, self1, tr2)
                    | (Inr r, tr2) \<Rightarrow>
                        (case py_path (data r) [''state'', ''bri''] of
                           Inl e \<Rightarrow> (Inl e, self1, tr2)
                         | Inr bri \<Rightarrow>
                             (case py_div bri (3922 / 100) of
                                Inl e \<Rightarrow> (Inl e, self1, tr2)
                              | Inr b \<Rightarrow> (Inr (), self1\<lparr>light_brightness := Some b\<rparr>, tr2)))))
      else (let b0 = kwargs_get kw ATTR_BRIGHTNESS 255;
                self1 = self\<lparr>light_brightness := Some b0\<rparr>;
                convertedBrightness = py_round (b0 * (3922 / 100));
                convertedBrightness = (if convertedBrightness > 10000 then 10000 else convertedBrightness)
            in case set_light_brightness_async net (light_client self1) (light_wiser_id self1)
                      (of_int convertedBrightness) tr of
                 (Inl e, tr1) \<Rightarrow> (Inl e, self1, tr1)
               | (Inr r, tr1) \<Rightarrow>
                   (let self2 = self1\<lparr>light_is_on := Some True\<rparr>
                    in case py_path (data r) [''target_state'', ''bri''] of
                         Inl e \<Rightarrow> (Inl e, self2, tr1)
                       | Inr bri \<Rightarrow>
                           (case py_div bri (3922 / 100) of
                              Inl e \<Rightarrow> (Inl e, self2, tr1)
                            | Inr b \<Rightarrow> (Inr (), self2\<lparr>light_brightness := Some b\<rparr>, tr1)))))"

subsection \<open>Cover\<close>

record FellerCover =
  cover_state :: "bool option"
  cover_wiser_id :: int
  cover_is_opening :: bool
  cover_is_closing :: bool
  cover_is_opened :: bool
  cover_is_closed :: bool
  cover_is_partially_opened :: bool
  cover_position :: "rat option"
  cover_client :: FellerApiClient

text \<open>The three \<open>if moving == ...\<close> statements, in the order of the source.\<close>

definition set_moving :: "json \<Rightarrow> FellerCover \<Rightarrow> FellerCover" where
  "set_moving moving self =
     (let s1 = (if py_eq_str moving ''stop''
                then self\<lparr>cover_is_closing := False, cover_is_opening := False\<rparr> else self);
          s2 = (if py_eq_str moving ''up''
                then s1\<lparr>cover_is_closing := False, cover_is_opening := True\<rparr> else s1);
          s3 = (if py_eq_str moving ''down''
                then s2\<lparr>cover_is_closing := True, cover_is_opening := False\<rparr> else s2)
      in s3)"

text \<open>The \<open>if self._position >= 100 / elif self._position <= 0 / else\<close> statement.\<close>

definition set_open_flags :: "rat \<Rightarrow> FellerCover \<Rightarrow> FellerCover" where
  "set_open_flags p self =
     (if p \<ge> 100
      then self\<lparr>cover_is_closed := False, cover_is_opened := True,
                cover_is_partially_opened := False\<rparr>
      else if p \<le> 0
      then self\<lparr>cover_is_closed := True, cover_is_opened := False,
                cover_is_partially_opened := False\<rparr>
      else self\<lparr>cover_is_closed := False, cover_is_opened := False,
                cover_is_partially_opened := True\<rparr>)"

definition cover_update_from_websocket_message ::
  "json \<Rightarrow> FellerCover \<Rightarrow> trace \<Rightarrow> (exn + unit) \<times> FellerCover \<times> trace" where
  "cover_update_from_websocket_message message self tr =
     (case py_in ''load'' message of
        Inl e \<Rightarrow> (Inl e, self, tr)
      | Inr False \<Rightarrow>
          (Inr (), self,
           tr @ [Log DEBUG ''No load in websocket message, skipping update of cover with id %s''])
      | Inr True \<Rightarrow>
     (case py_getitem message ''load'' of
        Inl e \<Rightarrow> (Inl e, self, tr)
      | Inr load \<Rightarrow>
     (case py_in ''state'' load of
        Inl e \<Rightarrow> (Inl e, self, tr)
      | Inr False \<Rightarrow>
          (Inr (), self,
           tr @ [Log DEBUG ''No state in websocket message, skipping update of cover with id %s''])
      | Inr True \<Rightarrow>
     (case py_path load [''state'', ''level''] of
        Inl e \<Rightarrow> (Inl e, self, tr)
      | Inr position \<Rightarrow>
     (case py_path load [''state'', ''moving''] of
        Inl e \<Rightarrow> (Inl e, self, tr)
      | Inr moving \<Rightarrow>
     (case py_div position 100 of
        Inl e \<Rightarrow> (Inl e, self, tr)
      | Inr q \<Rightarrow>
          (let p = 100 - q;
               self1 = self\<lparr>cover_position := Some p\<rparr>;
               self2 = set_moving moving self1;
               self3 = set_open_flags p self2
           in (Inr (), self3, tr @ [ScheduleUpdate (cover_wiser_id self)]))))))))"

text \<open>The three commands that set a position. Each assigns \<open>self._position\<close> from the keyword
  arguments first, then awaits the request, then reads the echoed target state.\<close>

definition cover_after_level_request ::
  "(exn + FellerApiResult) \<times> trace \<Rightarrow> FellerCover \<Rightarrow> (exn + unit) \<times> FellerCover \<times> trace" where
  "cover_after_level_request outcome self1 =
     (case outcome of
        (Inl e, tr1) \<Rightarrow> (Inl e, self1, tr1)
      | (Inr r, tr1) \<Rightarrow>
          (let self2 = self1\<lparr>cover_state := Some True\<rparr>
           in case py_path (data r) [''target_state'', ''level''] of
                Inl e \<Rightarrow> (Inl e, self2, tr1)
              | Inr lv \<Rightarrow>
                  (case py_div lv 100 of
                     Inl e \<Rightarrow> (Inl e, self2, tr1)
                   | Inr q \<Rightarrow> (Inr (), self2\<lparr>cover_position := Some (100 - q)\<rparr>, tr1))))"

definition async_open_cover ::
  "network \<Rightarrow> kwargs \<Rightarrow> FellerCover \<Rightarrow> trace \<Rightarrow> (exn + unit) \<times> FellerCover \<times> trace" where
  "async_open_cover net kw self tr =
     (let self1 = self\<lparr>cover_position := Some (kwargs_get kw ATTR_POSITION 100)\<rparr>
      in cover_after_level_request
           (set_cover_level_async net (cover_client self1) (cover_wiser_id self1) 0 tr) self1)"

definition async_close_cover ::
  "network \<Rightarrow> kwargs \<Rightarrow> FellerCover \<Rightarrow> trace \<Rightarrow> (exn + unit) \<times> FellerCover \<times> trace" where
  "async_close_cover net kw self tr =
     (let self1 = self\<lparr>cover_position := Some (kwargs_get kw ATTR_POSITION 100)\<rparr>
      in cover_after_level_request
           (set_cover_level_async net (cover_client self1) (cover_wiser_id self1) 10000 tr) self1)"

definition async_set_cover_position ::
  "network \<Rightarrow> kwargs \<Rightarrow> FellerCover \<Rightarrow> trace \<Rightarrow> (exn + unit) \<times> FellerCover \<times> trace" where
  "async_set_cover_position net kw self tr =
     (let p = kwargs_get kw ATTR_POSITION 100;
          self1 = self\<lparr>cover_position := Some p\<rparr>
      in cover_after_level_request
           (set_cover_level_async net (cover_client self1) (cover_wiser_id self1)
              ((100 - p) * 100) tr) self1)"

subsection \<open>HVAC group\<close>

datatype HVACMode = HEAT | OFF

datatype HVACAction = HEATING | IDLE

record FellerHvacGroup =
  hvac_wiser_id :: int
  hvac_client :: FellerApiClient
  hvac_current_temperature :: "json option"
  hvac_target_temperature :: "json option"
  hvac_mode :: "HVACMode option"
  hvac_action :: "HVACAction option"
  hvac_min_temp :: "json option"
  hvac_max_temp :: "json option"

text \<open>\<open>_update_from_state\<close> assigns field by field, so an exception leaves the fields
  assigned before it.\<close>

definition update_from_state :: "json \<Rightarrow> FellerHvacGroup \<Rightarrow> (exn + unit) \<times> FellerHvacGroup" where
  "update_from_state state self =
     (case py_getitem state ''ambient_temperature'' of
        Inl e \<Rightarrow> (Inl e, self)
      | Inr ambient \<Rightarrow>
     (let self1 = self\<lparr>hvac_current_temperature := Some ambient\<rparr>
      in case py_getitem state ''target_temperature'' of
        Inl e \<Rightarrow> (Inl e, self1)
      | Inr target \<Rightarrow>
     (let self2 = self1\<lparr>hvac_target_temperature := Some target\<rparr>
      in case py_getitem state ''on'' of
        Inl e \<Rightarrow> (Inl e, self2)
      | Inr on \<Rightarrow>
     (let self3 = self2\<lparr>hvac_mode := Some (if py_truthy on then HEAT else OFF)\<rparr>
      in case py_getitem state ''heating_cooling_level'' of
        Inl e \<Rightarrow> (Inl e, self3)
      | Inr heating_level \<Rightarrow>
     (case py_gt heating_level 0 of
        Inl e \<Rightarrow> (Inl e, self3)
      | Inr heating \<Rightarrow>
          (Inr (), self3\<lparr>hvac_action := Some (if heating then HEATING else IDLE)\<rparr>))))))"

definition hvac_update_from_websocket_message ::
  "json \<Rightarrow> FellerHvacGroup \<Rightarrow> trace \<Rightarrow> (exn + unit) \<times> FellerHvacGroup \<times> trace" where
  "hvac_update_from_websocket_message message self tr =
     (case py_in ''hvacgroup'' message of
        Inl e \<Rightarrow> (Inl e, self, tr)
      | Inr False \<Rightarrow>
          (Inr (), self,
           tr @ [Log DEBUG ''No hvacgroup in websocket message, skipping update of hvacgroup with id %s''])
      | Inr True \<Rightarrow>
     (case py_getitem message ''hvacgroup'' of
        Inl e \<Rightarrow> (Inl e, self, tr)
      | Inr grp \<Rightarrow>
     (case py_in ''state'' grp of
        Inl e \<Rightarrow> (Inl e, self, tr)
      | Inr False \<Rightarrow>
          (Inr (), self,
           tr @ [Log DEBUG ''No state in websocket message, skipping update of cover with id %s''])
      | Inr True \<Rightarrow>
     (case py_getitem grp ''state'' of
        Inl e \<Rightarrow> (Inl e, self, tr)
      | Inr state \<Rightarrow>
     (case update_from_state state self of
        (Inl e, self1) \<Rightarrow> (Inl e, self1, tr)
      | (Inr u, self1) \<Rightarrow> (Inr (), self1, tr @ [ScheduleUpdate (hvac_wiser_id self)]))))))"

section \<open>The registry, the event router and the connection supervisor (main.py)\<close>

text \<open>\<open>WISER_ENTITIES\<close> is a list of handles of the three kinds; a call of
  \<open>update_from_websocket_message\<close> on an element is dispatched on its class.\<close>

datatype entity =
    Light FellerLight
  | Cover FellerCover
  | HvacGroup FellerHvacGroup

fun wiser_entity_id :: "entity \<Rightarrow> int" where
  "wiser_entity_id (Light l) = light_wiser_id l"
| "wiser_entity_id (Cover c) = cover_wiser_id c"
| "wiser_entity_id (HvacGroup g) = hvac_wiser_id g"

fun update_from_websocket_message ::
  "json \<Rightarrow> entity \<Rightarrow> trace \<Rightarrow> (exn + unit) \<times> entity \<times> trace" where
  "update_from_websocket_message message (Light l) tr =
     (case light_update_from_websocket_message message l tr of (r, l', tr') \<Rightarrow> (r, Light l', tr'))"
| "update_from_websocket_message message (Cover c) tr =
     (case cover_update_from_websocket_message message c tr of (r, c', tr') \<Rightarrow> (r, Cover c', tr'))"
| "update_from_websocket_message message (HvacGroup g) tr =
     (case hvac_update_from_websocket_message message g tr of
        (r, g', tr') \<Rightarrow> (r, HvacGroup g', tr'))"

text \<open>\<open>_get_wiser_entity_id\<close>; Python's \<open>None\<close> is \<open>JNull\<close>.\<close>

definition get_wiser_entity_id :: "json \<Rightarrow> trace \<Rightarrow> (exn + json) \<times> trace" where
  "get_wiser_entity_id message tr =
     (case py_in ''load'' message of
        Inl e \<Rightarrow> (Inl e, tr)
      | Inr True \<Rightarrow>
          (case py_getitem message ''load'' of
             Inl e \<Rightarrow> (Inl e, tr)
           | Inr load \<Rightarrow>
               (case py_in ''id'' load of
                  Inl e \<Rightarrow> (Inl e, tr)
                | Inr False \<Rightarrow>
                    (Inr JNull, tr @ [Log DEBUG ''No id in websocket message for load, ignoring''])
                | Inr True \<Rightarrow> (py_getitem load ''id'', tr)))
      | Inr False \<Rightarrow>
     (case py_in ''hvacgroup'' message of
        Inl e \<Rightarrow> (Inl e, tr)
      | Inr True \<Rightarrow>
          (case py_getitem message ''hvacgroup'' of
             Inl e \<Rightarrow> (Inl e, tr)
           | Inr grp \<Rightarrow>
               (case py_in ''id'' grp of
                  Inl e \<Rightarrow> (Inl e, tr)
                | Inr False \<Rightarrow>
                    (Inr JNull,
                     tr @ [Log DEBUG ''No id in websocket message for hvacgroup, ignoring''])
                | Inr True \<Rightarrow> (py_getitem grp ''id'', tr)))
      | Inr False \<Rightarrow> (Inr JNull, tr)))"

text \<open>\<open>e.wiser_entity_id == wiser_entity_id\<close>, the identifier of a handle being an integer.\<close>

definition id_matches :: "json \<Rightarrow> entity \<Rightarrow> bool" where
  "id_matches wid e = py_eq_num wid (of_int (wiser_entity_id e))"

text \<open>
  The second half of \<open>_handle_websocket_message\<close>, from the decoded message on: the list
  comprehension is a \<open>filter\<close>, \<open>entity[0]\<close> is its head, and the update of that object shows
  in the registry at the position of the first match.
\<close>

definition route_message ::
  "json \<Rightarrow> entity list \<Rightarrow> trace \<Rightarrow> (exn + unit) \<times> entity list \<times> trace" where
  "route_message message WISER_ENTITIES tr =
     (case get_wiser_entity_id message tr of
        (Inl e, tr1) \<Rightarrow> (Inl e, WISER_ENTITIES, tr1)
      | (Inr wid, tr1) \<Rightarrow>
          if wid = JNull then (Inr (), WISER_ENTITIES, tr1)
          else (let entity = filter (id_matches wid) WISER_ENTITIES
                in if entity = []
                   then (Inr (), WISER_ENTITIES, tr1 @ [Log DEBUG ''No entity found for id %s''])
                   else (case update_from_websocket_message message (hd entity) tr1 of
                           (r, e', tr2) \<Rightarrow>
                             (r, WISER_ENTITIES
                                   [length (takeWhile (\<lambda>e. \<not> id_matches wid e) WISER_ENTITIES) := e'],
                              tr2))))"

text \<open>
  The websocket library, as the supervisor meets it: the \<open>n\<close>-th \<open>connect\<close> succeeds or raises;
  the \<open>n\<close>-th \<open>recv\<close> raises or yields a frame, which \<open>json.loads\<close> decodes (\<open>Some\<close>) or
  rejects (\<open>None\<close>); the \<open>n\<close>-th ping is answered or raises.
\<close>

datatype connect_reply = Connected | ConnectRaises exn

datatype recv_reply = RecvRaises exn | Frame "json option"

datatype ping_reply = Pong | PingRaises exn

record websockets =
  ws_connect :: "nat \<Rightarrow> connect_reply"
  ws_recv :: "nat \<Rightarrow> recv_reply"
  ws_ping :: "nat \<Rightarrow> ping_reply"

definition handle_websocket_message ::
  "websockets \<Rightarrow> entity list \<Rightarrow> trace \<Rightarrow> (exn + unit) \<times> entity list \<times> trace" where
  "handle_websocket_message ws WISER_ENTITIES tr =
     (let reply = ws_recv ws (recvs_of tr); tr1 = tr @ [WsRecv]
      in case reply of
           RecvRaises e \<Rightarrow>
             if e = TimeoutError \<or> e = ConnectionClosed
             then (let pong = ws_ping ws (pings_of tr1); tr2 = tr1 @ [WsPing]
                   in case pong of
                        Pong \<Rightarrow>
                          (Inl (UnboundLocalError ''result''), WISER_ENTITIES,
                           tr2 @ [Log INFO ''Ping OK, keeping connection alive''])
                      | PingRaises e' \<Rightarrow>
                          (Inr (), WISER_ENTITIES,
                           tr2 @ [Log INFO ''Ping error - retrying connection in 10 sec (Ctrl-C to quit)'',
                                  Sleep 10]))
             else (Inl e, WISER_ENTITIES, tr1)
         | Frame decoded \<Rightarrow>
             (let tr2 = tr1 @ [Log DEBUG ''Reveived the following message form wiser: %s'']
              in case decoded of
                   None \<Rightarrow> (Inl JSONDecodeError, WISER_ENTITIES, tr2)
                 | Some message \<Rightarrow> route_message message WISER_ENTITIES tr2))"

text \<open>
  \<open>establish_websocket\<close> has two nested \<open>while True\<close> loops and neither a \<open>break\<close> nor a
  \<open>return\<close>. The first argument bounds how long the task is watched: one unit for each
  \<open>connect\<close> and for each call of \<open>_handle_websocket_message\<close>. A task that is still in a loop
  when the bound is reached is \<open>Pending\<close>; \<open>Raised e\<close> is the task ended by an exception that
  no handler caught.
\<close>

datatype task = Pending | Raised exn

text \<open>The three \<open>except\<close> clauses of \<open>establish_websocket\<close>: the trace after the
  handler when the loop goes on (\<open>continue\<close>), the exception when no clause catches it.\<close>

definition on_exception :: "exn \<Rightarrow> trace \<Rightarrow> exn + trace" where
  "on_exception e tr =
     (if e = GaiError
      then Inr (tr @ [Log ERROR ''Websocket connection error, retrying in 10 sec'', Sleep 10])
      else if e = ConnectionRefusedError
      then Inr (tr @ [Log ERROR ''Configured host refused connection, retrying in 10 sec'',
                      Sleep 10])
      else if is_Exception e
      then Inr (tr @ [Log ERROR ''Unhadled Exception occured in WebSocket loop: %s''])
      else Inl e)"

fun establish_websocket ::
      "nat \<Rightarrow> websockets \<Rightarrow> entity list \<Rightarrow> trace \<Rightarrow> task \<times> entity list \<times> trace"
  and receive_loop ::
      "nat \<Rightarrow> websockets \<Rightarrow> entity list \<Rightarrow> trace \<Rightarrow> task \<times> entity list \<times> trace"
where
  "establish_websocket 0 ws WISER_ENTITIES tr = (Pending, WISER_ENTITIES, tr)"
| "establish_websocket (Suc n) ws WISER_ENTITIES tr =
     (let tr1 = tr @ [Log INFO ''Creating new websocket connection''];
          reply = ws_connect ws (connects_of tr1);
          tr2 = tr1 @ [WsConnect]
      in case reply of
           Connected \<Rightarrow> receive_loop n ws WISER_ENTITIES tr2
         | ConnectRaises e \<Rightarrow>
             (case on_exception e tr2 of
                Inr tr3 \<Rightarrow> establish_websocket n ws WISER_ENTITIES tr3
              | Inl e' \<Rightarrow> (Raised e', WISER_ENTITIES, tr2)))"
| "receive_loop 0 ws WISER_ENTITIES tr = (Pending, WISER_ENTITIES, tr)"
| "receive_loop (Suc n) ws WISER_ENTITIES tr =
     (case handle_websocket_message ws WISER_ENTITIES tr of
        (Inr u, ents, tr1) \<Rightarrow> receive_loop n ws ents tr1
      | (Inl e, ents, tr1) \<Rightarrow>
          (case on_exception e tr1 of
             Inr tr2 \<Rightarrow> establish_websocket n ws ents tr2
           | Inl e' \<Rightarrow> (Raised e', ents, tr1)))"

section \<open>Specification predicates and sample inputs\<close>

subsection \<open>Replies to a request\<close>

text \<open>
  The three causes of a failed request: the HTTP library raises \<open>ClientError\<close> (at the
  request or while the body is read), the HTTP status is at least 400, or the \<open>status\<close>
  field of the vendor envelope is not \<open>"success"\<close>.
\<close>

definition reply_failed :: "http_reply \<Rightarrow> bool" where
  "reply_failed reply =
     (case reply of
        Raises e \<Rightarrow> e = ClientError
      | Response status payload \<Rightarrow>
          status \<ge> 400 \<or>
          (case payload of
             Inl e \<Rightarrow> e = ClientError
           | Inr d \<Rightarrow> (case py_getitem d ''status'' of
                         Inl e \<Rightarrow> False
                       | Inr s \<Rightarrow> \<not> py_eq_str s ''success'')))"

text \<open>A successful reply: a status below 400 and an envelope whose \<open>status\<close> is
  \<open>"success"\<close>; the result carries the HTTP status and the \<open>data\<close> payload.\<close>

definition reply_succeeds :: "http_reply \<Rightarrow> FellerApiResult \<Rightarrow> bool" where
  "reply_succeeds reply res =
     (case reply of
        Raises e \<Rightarrow> False
      | Response status payload \<Rightarrow>
          status < 400 \<and> status_code res = status \<and>
          (case payload of
             Inl e \<Rightarrow> False
           | Inr d \<Rightarrow> (case py_getitem d ''status'' of
                         Inl e \<Rightarrow> False
                       | Inr s \<Rightarrow> py_eq_str s ''success'' \<and> py_getitem d ''data'' = Inr (data res))))"



subsection \<open>Single attempt and bounded retry\<close>

text \<open>
  An operation makes a single attempt at a trace when it issues exactly the one request,
  does not sleep, and raises \<open>FellerApiException\<close> if the reply to that request is a failure.
  It retries up to \<open>retry_count\<close> times when, for every \<open>j\<close> below the retry count, \<open>j\<close>
  failed attempts followed by a successful one give the successful result after \<open>j + 1\<close>
  requests and sleeps of 1 to \<open>j\<close> seconds, and as many failed attempts as the retry count
  give the exception of the exhausted retries after that many requests.
\<close>

fun is_api_failure :: "exn + 'a \<Rightarrow> bool" where
  "is_api_failure (Inl (FellerApiException c)) = True"
| "is_api_failure _ = False"

definition single_attempt ::
  "network \<Rightarrow> request \<Rightarrow> (trace \<Rightarrow> (exn + FellerApiResult) \<times> trace) \<Rightarrow> trace \<Rightarrow> bool" where
  "single_attempt net rq operation tr =
     (requests_of (snd (operation tr)) = requests_of tr @ [rq]
      \<and> sleeps_of (snd (operation tr)) = sleeps_of tr
      \<and> (reply_failed (net (length (requests_of tr)) rq) \<longrightarrow> is_api_failure (fst (operation tr))))"

definition bounded_retry ::
  "network \<Rightarrow> request \<Rightarrow> int \<Rightarrow> (trace \<Rightarrow> (exn + FellerApiResult) \<times> trace) \<Rightarrow> trace \<Rightarrow> bool" where
  "bounded_retry net rq retry_count operation tr =
     ((\<forall>j res. j < nat retry_count
          \<and> (\<forall>k<j. reply_failed (net (length (requests_of tr) + k) rq))
          \<and> reply_succeeds (net (length (requests_of tr) + j) rq) res
        \<longrightarrow> fst (operation tr) = Inr res
            \<and> length (requests_of (snd (operation tr))) = length (requests_of tr) + j + 1
            \<and> sleeps_of (snd (operation tr)) = sleeps_of tr @ map (\<lambda>i. i + 1) [0..<j])
      \<and> ((\<forall>k<nat retry_count. reply_failed (net (length (requests_of tr) + k) rq))
        \<longrightarrow> fst (operation tr) = Inl (FellerApiException (FailedAfterRetries retry_count))
            \<and> length (requests_of (snd (operation tr))) = length (requests_of tr) + nat retry_count))"

subsection \<open>Envelopes of the websocket\<close>



subsection \<open>Sample inputs\<close>

text \<open>A client, and four networks: four failures and then success; always down; one failure
  and then success; always success.\<close>

definition client0 :: FellerApiClient where
  "client0 = \<lparr>host = ''wiser'', apiKey = ''key'', request_timeout_seconds = 10\<rparr>"

definition net5 :: network where
  "net5 n rq = (if n < 4 then Response 500 (Inr JNull)
                else Response 200 (Inr (JObj [(''status'', JStr ''success''), (''data'', JNum 7)])))"

definition net_down :: network where
  "net_down n rq = Raises ClientError"

definition net_once :: network where
  "net_once n rq = (if n = 0 then Response 500 (Inr JNull)
                else Response 200 (Inr (JObj [(''status'', JStr ''success''), (''data'', JNum 7)])))"

definition net_ok :: network where
  "net_ok n rq = Response 200 (Inr (JObj [(''status'', JStr ''success''), (''data'', JNum 7)]))"


definition cover_half :: FellerCover where
  "cover_half = \<lparr>cover_state = Some True, cover_wiser_id = 7, cover_is_opening = False,
             cover_is_closing = False, cover_is_opened = False, cover_is_closed = False,
             cover_is_partially_opened = True, cover_position = Some 40, cover_client = client0\<rparr>"

definition light3 :: FellerLight where
  "light3 = \<lparr>light_wiser_id = 3, light_is_on = None, light_brightness = None,
             light_client = client0, light_type = ''dim''\<rparr>"


definition hvac1 :: FellerHvacGroup where
  "hvac1 = \<lparr>hvac_wiser_id = 1, hvac_client = client0,
            hvac_current_temperature = Some (JNum 20), hvac_target_temperature = Some (JNum 21),
            hvac_mode = Some HEAT, hvac_action = Some IDLE,
            hvac_min_temp = None, hvac_max_temp = None\<rparr>"


definition event_bri :: json where
  "event_bri = JObj [(''load'', JObj [(''id'', JNum 3), (''state'', JObj [(''bri'', JNum 5020)])])]"


definition event_no_level :: json where
  "event_no_level =
     JObj [(''load'', JObj [(''id'', JNum 7), (''state'', JObj [(''moving'', JStr ''down'')])])]"

definition event_partial_hvac :: json where
  "event_partial_hvac =
     JObj [(''hvacgroup'', JObj [(''id'', JNum 1),
             (''state'', JObj [(''ambient_temperature'', JNum (43 / 2))])])]"


text \<open>Websockets: frames that carry a partial HVAC event; a host name that never resolves; a
  connection lost for good (every receive reports it closed and every ping fails); an idle
  connection that is alive (a receive times out and the ping is answered).\<close>

definition ws_partial :: websockets where
  "ws_partial = \<lparr>ws_connect = (\<lambda>n. Connected),
                 ws_recv = (\<lambda>n. Frame (Some event_partial_hvac)),
                 ws_ping = (\<lambda>n. Pong)\<rparr>"

definition ws_dns :: websockets where
  "ws_dns = \<lparr>ws_connect = (\<lambda>n. ConnectRaises GaiError),
             ws_recv = (\<lambda>n. RecvRaises ConnectionClosed),
             ws_ping = (\<lambda>n. Pong)\<rparr>"

definition ws_lost :: websockets where
  "ws_lost = \<lparr>ws_connect = (\<lambda>n. Connected),
              ws_recv = (\<lambda>n. RecvRaises ConnectionClosed),
              ws_ping = (\<lambda>n. PingRaises ConnectionClosed)\<rparr>"

definition ws_idle :: websockets where
  "ws_idle = \<lparr>ws_connect = (\<lambda>n. Connected),
              ws_recv = (\<lambda>n. RecvRaises TimeoutError),
              ws_ping = (\<lambda>n. Pong)\<rparr>"

section \<open>Properties\<close>

subsection \<open>Traces\<close>

lemma sleeps_of_append [simp]: "sleeps_of (a @ b) = sleeps_of a @ sleeps_of b"
  by (induction a rule: sleeps_of.induct) auto

lemma requests_of_append [simp]: "requests_of (a @ b) = requests_of a @ requests_of b"
  by (induction a rule: requests_of.induct) auto

lemma connects_of_append [simp]: "connects_of (a @ b) = connects_of a + connects_of b"
  by (induction a rule: connects_of.induct) auto

lemma recvs_of_append [simp]: "recvs_of (a @ b) = recvs_of a + recvs_of b"
  by (induction a rule: recvs_of.induct) auto

lemma pings_of_append [simp]: "pings_of (a @ b) = pings_of a + pings_of b"
  by (induction a rule: pings_of.induct) auto

subsection \<open>The API client\<close>

lemma send_request_async_failed:
  assumes "reply_failed (net (length (requests_of tr)) (build_request self ep meth body))"
  shows "\<exists>c tr'. send_request_async net self ep meth body tr = (Inl (FellerApiException c), tr')
           \<and> requests_of tr' = requests_of tr @ [build_request self ep meth body]
           \<and> sleeps_of tr' = sleeps_of tr"
  using assms
  by (auto simp: send_request_async_def reply_failed_def on_client_error_def Let_def
           split: http_reply.splits sum.splits)

lemma send_request_async_trace:
  "requests_of (snd (send_request_async net self ep meth body tr))
     = requests_of tr @ [build_request self ep meth body]
   \<and> sleeps_of (snd (send_request_async net self ep meth body tr)) = sleeps_of tr"
  by (auto simp: send_request_async_def on_client_error_def Let_def
           split: http_reply.splits sum.splits)

lemma retry_loop_failures:
  "(\<forall>k<length is. reply_failed (net (length (requests_of tr) + k) (build_request self ep meth body)))
   \<Longrightarrow> \<exists>tr'. retry_loop net self ep meth body rc (is @ js) tr
                = retry_loop net self ep meth body rc js tr'
            \<and> sleeps_of tr' = sleeps_of tr @ map (\<lambda>i. i + 1) is
            \<and> length (requests_of tr') = length (requests_of tr) + length is"
proof (induction "is" arbitrary: tr)
  case Nil
  then show ?case by (intro exI[of _ tr]) simp
next
  case (Cons i rest)
  let ?rq = "build_request self ep meth body"
  from Cons.prems have "reply_failed (net (length (requests_of tr)) ?rq)"
    by fastforce
  from send_request_async_failed[where net = net and tr = tr and self = self and ep = ep
      and meth = meth and body = body, OF this] obtain c tr1 where
    s: "send_request_async net self ep meth body tr = (Inl (FellerApiException c), tr1)"
    and r: "requests_of tr1 = requests_of tr @ [?rq]"
    and sl: "sleeps_of tr1 = sleeps_of tr" by blast
  let ?tr2 = "tr1 @ [Sleep (i + 1)]"
  have len: "length (requests_of ?tr2) = Suc (length (requests_of tr))"
    using r by simp
  have "\<forall>k<length rest. reply_failed (net (length (requests_of ?tr2) + k) ?rq)"
  proof (intro allI impI)
    fix k assume "k < length rest"
    then have "Suc k < length (i # rest)" by simp
    with Cons.prems have "reply_failed (net (length (requests_of tr) + Suc k) ?rq)" by blast
    then show "reply_failed (net (length (requests_of ?tr2) + k) ?rq)" using len by simp
  qed
  from Cons.IH[OF this] obtain tr' where
    a: "retry_loop net self ep meth body rc (rest @ js) ?tr2
          = retry_loop net self ep meth body rc js tr'"
    and b: "sleeps_of tr' = sleeps_of ?tr2 @ map (\<lambda>i. i + 1) rest"
    and c: "length (requests_of tr') = length (requests_of ?tr2) + length rest" by blast
  have "retry_loop net self ep meth body rc ((i # rest) @ js) tr
          = retry_loop net self ep meth body rc js tr'"
    using s a by simp
  moreover have "sleeps_of tr' = sleeps_of tr @ map (\<lambda>i. i + 1) (i # rest)"
    using b sl by simp
  moreover have "length (requests_of tr') = length (requests_of tr) + length (i # rest)"
    using c len by simp
  ultimately show ?case by blast
qed

lemma send_request_async_succeeds:
  assumes "reply_succeeds (net (length (requests_of tr)) (build_request self ep meth body)) res"
  shows "\<exists>tr'. send_request_async net self ep meth body tr = (Inr res, tr')
           \<and> requests_of tr' = requests_of tr @ [build_request self ep meth body]
           \<and> sleeps_of tr' = sleeps_of tr"
  using assms
  by (auto simp: send_request_async_def reply_succeeds_def on_client_error_def Let_def
           split: http_reply.splits sum.splits)

lemma retry_then_success:
  assumes f: "\<forall>k<j. reply_failed (net (length (requests_of tr) + k) (build_request self ep meth body))"
    and s: "reply_succeeds (net (length (requests_of tr) + j) (build_request self ep meth body)) res"
    and j: "j < nat rc"
  shows "\<exists>tr'. send_request_with_retry_async net self ep rc meth body tr = (Inr res, tr')
           \<and> sleeps_of tr' = sleeps_of tr @ map (\<lambda>i. i + 1) [0..<j]
           \<and> length (requests_of tr') = length (requests_of tr) + j + 1"
proof -
  let ?rq = "build_request self ep meth body"
  have split: "[0..<nat rc] = [0..<j] @ (j # [Suc j..<nat rc])"
    using j by (metis le_add2 le_add_same_cancel2 less_imp_add_positive upt_add_eq_append upt_conv_Cons)
  from f have "\<forall>k<length [0..<j]. reply_failed (net (length (requests_of tr) + k) ?rq)" by simp
  from retry_loop_failures[where net = net and tr = tr and self = self and ep = ep
      and meth = meth and body = body and rc = rc and js = "j # [Suc j..<nat rc]", OF this]
  obtain tr1 where
    a: "retry_loop net self ep meth body rc ([0..<j] @ (j # [Suc j..<nat rc])) tr
          = retry_loop net self ep meth body rc (j # [Suc j..<nat rc]) tr1"
    and b: "sleeps_of tr1 = sleeps_of tr @ map (\<lambda>i. i + 1) [0..<j]"
    and c: "length (requests_of tr1) = length (requests_of tr) + length [0..<j]" by blast
  from s c have "reply_succeeds (net (length (requests_of tr1)) ?rq) res" by simp
  from send_request_async_succeeds[where net = net and tr = tr1 and self = self and ep = ep
      and meth = meth and body = body, OF this]
  obtain tr2 where
    d: "send_request_async net self ep meth body tr1 = (Inr res, tr2)"
    and e: "requests_of tr2 = requests_of tr1 @ [?rq]"
    and g: "sleeps_of tr2 = sleeps_of tr1" by blast
  have "send_request_with_retry_async net self ep rc meth body tr = (Inr res, tr2)"
    unfolding send_request_with_retry_async_def using split a d by simp
  moreover have "sleeps_of tr2 = sleeps_of tr @ map (\<lambda>i. i + 1) [0..<j]" using b g by simp
  moreover have "length (requests_of tr2) = length (requests_of tr) + j + 1" using c e by simp
  ultimately show ?thesis by blast
qed

lemma retry_exhausted:
  assumes f: "\<forall>k<nat rc. reply_failed (net (length (requests_of tr) + k) (build_request self ep meth body))"
  shows "\<exists>tr'. send_request_with_retry_async net self ep rc meth body tr
                  = (Inl (FellerApiException (FailedAfterRetries rc)), tr')
           \<and> sleeps_of tr' = sleeps_of tr @ map (\<lambda>i. i + 1) [0..<nat rc]
           \<and> length (requests_of tr') = length (requests_of tr) + nat rc"
proof -
  let ?rq = "build_request self ep meth body"
  from f have "\<forall>k<length [0..<nat rc]. reply_failed (net (length (requests_of tr) + k) ?rq)" by simp
  from retry_loop_failures[where net = net and tr = tr and self = self and ep = ep
      and meth = meth and body = body and rc = rc and js = "[]", OF this]
  show ?thesis unfolding send_request_with_retry_async_def by auto
qed

text \<open>
  C5. A read retried with retry count 5: when the first four attempts fail and the fifth
  succeeds, the operation returns the result of the fifth and has slept 1, 2, 3 and 4
  seconds, in this order, after the failed attempts (10 seconds in total); when all five
  attempts fail it raises \<open>FellerApiException\<close>.
\<close>

theorem retry_count_five:
  "((\<forall>k<4. reply_failed (net (length (requests_of tr) + k) (build_request self ep meth body)))
     \<and> reply_succeeds (net (length (requests_of tr) + 4) (build_request self ep meth body)) res
    \<longrightarrow> fst (send_request_with_retry_async net self ep 5 meth body tr) = Inr res
        \<and> sleeps_of (snd (send_request_with_retry_async net self ep 5 meth body tr))
            = sleeps_of tr @ [1, 2, 3, 4])
   \<and> ((\<forall>k<5. reply_failed (net (length (requests_of tr) + k) (build_request self ep meth body)))
    \<longrightarrow> (fst (send_request_with_retry_async net self ep 5 meth body tr)
            = Inl (FellerApiException (FailedAfterRetries 5))))"
proof (intro conjI impI)
  assume a: "(\<forall>k<4. reply_failed (net (length (requests_of tr) + k) (build_request self ep meth body)))
     \<and> reply_succeeds (net (length (requests_of tr) + 4) (build_request self ep meth body)) res"
  have m: "map (\<lambda>i. i + 1) [0..<4] = [1, 2, 3, 4::nat]" by (simp add: upt_rec)
  from a retry_then_success[where net = net and tr = tr and self = self and ep = ep
      and meth = meth and body = body and rc = 5 and j = 4 and res = res]
  obtain tr' where r: "send_request_with_retry_async net self ep 5 meth body tr = (Inr res, tr')"
    and s: "sleeps_of tr' = sleeps_of tr @ map (\<lambda>i. i + 1) [0..<4]" by auto
  show "fst (send_request_with_retry_async net self ep 5 meth body tr) = Inr res"
    using r by simp
  show "sleeps_of (snd (send_request_with_retry_async net self ep 5 meth body tr))
            = sleeps_of tr @ [1, 2, 3, 4]"
    using r s m by simp
next
  assume a: "\<forall>k<5. reply_failed (net (length (requests_of tr) + k) (build_request self ep meth body))"
  from a retry_exhausted[where net = net and tr = tr and self = self and ep = ep
      and meth = meth and body = body and rc = 5]
  show "fst (send_request_with_retry_async net self ep 5 meth body tr)
            = Inl (FellerApiException (FailedAfterRetries 5))" by auto
qed

theorem retry_count_five_witness:
  "fst (get_load_async net5 client0 3 5 []) = Inr \<lparr>status_code = 200, data = JNum 7\<rparr>
   \<and> sleeps_of (snd (get_load_async net5 client0 3 5 [])) = [1, 2, 3, 4]
   \<and> fst (get_hvac_group_async net_down client0 3 5 []) = Inl (FellerApiException (FailedAfterRetries 5))"
proof -
  have f: "\<forall>k<4. reply_failed (net5 (length (requests_of []) + k) (build_request client0 (LoadById 3) GET None))"
    by (simp add: net5_def reply_failed_def)
  have s: "reply_succeeds (net5 (length (requests_of []) + 4) (build_request client0 (LoadById 3) GET None))
             \<lparr>status_code = 200, data = JNum 7\<rparr>"
    by (simp add: net5_def reply_succeeds_def)
  have d: "\<forall>k<5. reply_failed (net_down (length (requests_of []) + k) (build_request client0 (HvacgroupById 3) GET None))"
    by (simp add: net_down_def reply_failed_def)
  show ?thesis
    using f s d
      retry_count_five[of net5 "[]" client0 "LoadById 3" GET None "\<lparr>status_code = 200, data = JNum 7\<rparr>"]
      retry_count_five[of net_down "[]" client0 "HvacgroupById 3" GET None]
    by (simp add: get_load_async_def get_hvac_group_async_def)
qed

lemma send_request_async_single:
  "single_attempt net (build_request self ep meth body) (send_request_async net self ep meth body) tr"
proof -
  have "reply_failed (net (length (requests_of tr)) (build_request self ep meth body))
        \<Longrightarrow> is_api_failure (fst (send_request_async net self ep meth body tr))"
    using send_request_async_failed[of net tr self ep meth body] by auto
  then show ?thesis
    unfolding single_attempt_def using send_request_async_trace[of net self ep meth body tr] by blast
qed

lemma send_request_with_retry_async_bounded:
  "bounded_retry net (build_request self ep meth body) rc
     (send_request_with_retry_async net self ep rc meth body) tr"
  unfolding bounded_retry_def
proof (intro conjI allI impI)
  fix j res
  assume a: "j < nat rc
          \<and> (\<forall>k<j. reply_failed (net (length (requests_of tr) + k) (build_request self ep meth body)))
          \<and> reply_succeeds (net (length (requests_of tr) + j) (build_request self ep meth body)) res"
  from a retry_then_success[of j net tr self ep meth body res rc]
  obtain tr' where r: "send_request_with_retry_async net self ep rc meth body tr = (Inr res, tr')"
    and s: "sleeps_of tr' = sleeps_of tr @ map (\<lambda>i. i + 1) [0..<j]"
    and l: "length (requests_of tr') = length (requests_of tr) + j + 1" by blast
  show "fst (send_request_with_retry_async net self ep rc meth body tr) = Inr res" using r by simp
  show "length (requests_of (snd (send_request_with_retry_async net self ep rc meth body tr)))
          = length (requests_of tr) + j + 1" using r l by simp
  show "sleeps_of (snd (send_request_with_retry_async net self ep rc meth body tr))
          = sleeps_of tr @ map (\<lambda>i. i + 1) [0..<j]" using r s by simp
next
  assume a: "\<forall>k<nat rc. reply_failed (net (length (requests_of tr) + k) (build_request self ep meth body))"
  from a retry_exhausted[of rc net tr self ep meth body]
  obtain tr' where r: "send_request_with_retry_async net self ep rc meth body tr
                  = (Inl (FellerApiException (FailedAfterRetries rc)), tr')"
    and l: "length (requests_of tr') = length (requests_of tr) + nat rc" by blast
  show "fst (send_request_with_retry_async net self ep rc meth body tr)
          = Inl (FellerApiException (FailedAfterRetries rc))" using r by simp
  show "length (requests_of (snd (send_request_with_retry_async net self ep rc meth body tr)))
          = length (requests_of tr) + nat rc" using r l by simp
qed

text \<open>
  C6, as amended. The reads of one load and of one HVAC group retry: with any retry count,
  after \<open>j\<close> failed attempts and a successful one they return that result having issued
  \<open>j + 1\<close> requests and slept 1 to \<open>j\<close> seconds, and after as many failed attempts as the
  retry count they raise. The two list reads and the five mutating operations issue exactly
  one request, never sleep, and raise when that request fails.
\<close>

theorem retry_only_for_single_reads:
  "bounded_retry net (build_request self (LoadById load_id) GET None) retry_count
     (get_load_async net self load_id retry_count) tr
   \<and> bounded_retry net (build_request self (HvacgroupById group_id) GET None) retry_count
       (get_hvac_group_async net self group_id retry_count) tr
   \<and> single_attempt net (build_request self Loads GET None) (get_all_loads_async net self) tr
   \<and> single_attempt net (build_request self Hvacgroups GET None)
       (get_all_hvac_groups_async net self) tr
   \<and> single_attempt net
       (build_request self (HvacgroupTargetState group_id) PUT
          (Some (JObj [(''target_temperature'', target_temperature)])))
       (set_hvac_group_temperature_async net self group_id target_temperature) tr
   \<and> single_attempt net
       (build_request self (HvacgroupTargetState group_id) PUT (Some (JObj [(''on'', JBool on)])))
       (set_hvac_group_state_async net self group_id on) tr
   \<and> single_attempt net (build_request self (LoadCtrl load_id) PUT (Some body))
       (send_load_ctrl_event_async net self load_id body) tr
   \<and> single_attempt net
       (build_request self (LoadTargetState load_id) PUT (Some (JObj [(''bri'', JNum brightness)])))
       (set_light_brightness_async net self load_id brightness) tr
   \<and> single_attempt net
       (build_request self (LoadTargetState load_id) PUT (Some (JObj [(''level'', JNum level)])))
       (set_cover_level_async net self load_id level) tr"
proof -
  have eqs:
    "get_load_async net self load_id retry_count
       = send_request_with_retry_async net self (LoadById load_id) retry_count GET None"
    "get_hvac_group_async net self group_id retry_count
       = send_request_with_retry_async net self (HvacgroupById group_id) retry_count GET None"
    "get_all_loads_async net self = send_request_async net self Loads GET None"
    "get_all_hvac_groups_async net self = send_request_async net self Hvacgroups GET None"
    "set_hvac_group_temperature_async net self group_id target_temperature
       = send_request_async net self (HvacgroupTargetState group_id) PUT
           (Some (JObj [(''target_temperature'', target_temperature)]))"
    "set_hvac_group_state_async net self group_id on
       = send_request_async net self (HvacgroupTargetState group_id) PUT
           (Some (JObj [(''on'', JBool on)]))"
    "send_load_ctrl_event_async net self load_id body
       = send_request_async net self (LoadCtrl load_id) PUT (Some body)"
    "set_light_brightness_async net self load_id brightness
       = send_request_async net self (LoadTargetState load_id) PUT
           (Some (JObj [(''bri'', JNum brightness)]))"
    "set_cover_level_async net self load_id level
       = send_request_async net self (LoadTargetState load_id) PUT
           (Some (JObj [(''level'', JNum level)]))"
    by (rule ext, simp add: get_load_async_def get_hvac_group_async_def get_all_loads_async_def
        get_all_hvac_groups_async_def set_hvac_group_temperature_async_def
        set_hvac_group_state_async_def send_load_ctrl_event_async_def
        set_light_brightness_async_def set_cover_level_async_def)+
  show ?thesis
    unfolding eqs
    by (intro conjI send_request_async_single send_request_with_retry_async_bounded)
qed

theorem list_reads_not_retried_counterexample:
  "\<not> bounded_retry net_once (build_request client0 Loads GET None) 5
       (get_all_loads_async net_once client0) []
   \<and> \<not> bounded_retry net_once (build_request client0 Hvacgroups GET None) 5
       (get_all_hvac_groups_async net_once client0) []
   \<and> fst (get_all_loads_async net_once client0 []) = Inl (FellerApiException (FailedWithStatus 500))
   \<and> length (requests_of (snd (get_all_loads_async net_once client0 []))) = 1
   \<and> sleeps_of (snd (get_all_loads_async net_once client0 [])) = []"
proof -
  have ev: "fst (get_all_loads_async net_once client0 []) = Inl (FellerApiException (FailedWithStatus 500))"
    "length (requests_of (snd (get_all_loads_async net_once client0 []))) = 1"
    "sleeps_of (snd (get_all_loads_async net_once client0 [])) = []"
    "fst (get_all_hvac_groups_async net_once client0 []) = Inl (FellerApiException (FailedWithStatus 500))"
    by (simp_all add: get_all_loads_async_def get_all_hvac_groups_async_def send_request_async_def
        net_once_def Let_def)
  have ok: "reply_succeeds (net_once (length (requests_of []) + 1) rq) \<lparr>status_code = 200, data = JNum 7\<rparr>"
    and bad: "\<forall>k<1. reply_failed (net_once (length (requests_of []) + k) rq)" for rq
    by (simp_all add: net_once_def reply_succeeds_def reply_failed_def)
  have "\<not> bounded_retry net_once (build_request client0 Loads GET None) 5
       (get_all_loads_async net_once client0) []"
  proof
    assume "bounded_retry net_once (build_request client0 Loads GET None) 5
       (get_all_loads_async net_once client0) []"
    then have "(1::nat) < nat 5 \<and> (\<forall>k<1. reply_failed (net_once (length (requests_of []) + k) (build_request client0 Loads GET None)))
          \<and> reply_succeeds (net_once (length (requests_of []) + 1) (build_request client0 Loads GET None)) \<lparr>status_code = 200, data = JNum 7\<rparr>
        \<longrightarrow> fst (get_all_loads_async net_once client0 []) = Inr \<lparr>status_code = 200, data = JNum 7\<rparr>"
      unfolding bounded_retry_def by blast
    with ok bad ev show False by simp
  qed
  moreover have "\<not> bounded_retry net_once (build_request client0 Hvacgroups GET None) 5
       (get_all_hvac_groups_async net_once client0) []"
  proof
    assume "bounded_retry net_once (build_request client0 Hvacgroups GET None) 5
       (get_all_hvac_groups_async net_once client0) []"
    then have "(1::nat) < nat 5 \<and> (\<forall>k<1. reply_failed (net_once (length (requests_of []) + k) (build_request client0 Hvacgroups GET None)))
          \<and> reply_succeeds (net_once (length (requests_of []) + 1) (build_request client0 Hvacgroups GET None)) \<lparr>status_code = 200, data = JNum 7\<rparr>
        \<longrightarrow> fst (get_all_hvac_groups_async net_once client0 []) = Inr \<lparr>status_code = 200, data = JNum 7\<rparr>"
      unfolding bounded_retry_def by blast
    with ok bad ev show False by simp
  qed
  ultimately show ?thesis using ev by simp
qed

theorem retry_only_for_single_reads_witness:
  "fst (get_load_async net_once client0 3 5 []) = Inr \<lparr>status_code = 200, data = JNum 7\<rparr>
   \<and> length (requests_of (snd (get_load_async net_once client0 3 5 []))) = 2
   \<and> sleeps_of (snd (get_load_async net_once client0 3 5 [])) = [1]
   \<and> is_api_failure (fst (set_cover_level_async net_once client0 3 2500 []))
   \<and> length (requests_of (snd (set_cover_level_async net_once client0 3 2500 []))) = 1
   \<and> sleeps_of (snd (set_cover_level_async net_once client0 3 2500 [])) = []"
proof -
  note t = retry_only_for_single_reads[where net = net_once and self = client0 and load_id = 3
      and retry_count = 5 and tr = "[]" and level = 2500]
  have ok: "reply_succeeds (net_once (length (requests_of []) + 1) rq) \<lparr>status_code = 200, data = JNum 7\<rparr>"
    and bad: "\<forall>k<1. reply_failed (net_once (length (requests_of []) + k) rq)"
    and bad0: "reply_failed (net_once (length (requests_of [])) rq)" for rq
    by (simp_all add: net_once_def reply_succeeds_def reply_failed_def)
  from t have "bounded_retry net_once (build_request client0 (LoadById 3) GET None) 5
     (get_load_async net_once client0 3 5) []" by blast
  then have "(1::nat) < nat 5
          \<and> (\<forall>k<1. reply_failed (net_once (length (requests_of []) + k) (build_request client0 (LoadById 3) GET None)))
          \<and> reply_succeeds (net_once (length (requests_of []) + 1) (build_request client0 (LoadById 3) GET None)) \<lparr>status_code = 200, data = JNum 7\<rparr>
        \<longrightarrow> fst (get_load_async net_once client0 3 5 []) = Inr \<lparr>status_code = 200, data = JNum 7\<rparr>
            \<and> length (requests_of (snd (get_load_async net_once client0 3 5 []))) = length (requests_of []) + 1 + 1
            \<and> sleeps_of (snd (get_load_async net_once client0 3 5 [])) = sleeps_of [] @ map (\<lambda>i. i + 1) [0..<1]"
    unfolding bounded_retry_def by blast
  with ok bad have r: "fst (get_load_async net_once client0 3 5 []) = Inr \<lparr>status_code = 200, data = JNum 7\<rparr>
            \<and> length (requests_of (snd (get_load_async net_once client0 3 5 []))) = 2
            \<and> sleeps_of (snd (get_load_async net_once client0 3 5 [])) = [1]" by simp
  from t have "single_attempt net_once
       (build_request client0 (LoadTargetState 3) PUT (Some (JObj [(''level'', JNum 2500)])))
       (set_cover_level_async net_once client0 3 2500) []" by blast
  with bad0 have "is_api_failure (fst (set_cover_level_async net_once client0 3 2500 []))
   \<and> length (requests_of (snd (set_cover_level_async net_once client0 3 2500 []))) = 1
   \<and> sleeps_of (snd (set_cover_level_async net_once client0 3 2500 [])) = []"
    unfolding single_attempt_def by simp
  with r show ?thesis by simp
qed





subsection \<open>Device handles\<close>

lemma cover_fields [simp]:
  "cover_position (set_moving mv c) = cover_position c"
  "cover_position (set_open_flags p c) = cover_position c"
  "cover_is_opening (set_open_flags p c) = cover_is_opening c"
  "cover_is_closing (set_open_flags p c) = cover_is_closing c"
  "cover_is_opened (set_open_flags p c) = (p \<ge> 100)"
  "cover_is_closed (set_open_flags p c) = (\<not> p \<ge> 100 \<and> p \<le> 0)"
  "cover_is_partially_opened (set_open_flags p c) = (\<not> p \<ge> 100 \<and> \<not> p \<le> 0)"
  by (simp_all add: set_moving_def set_open_flags_def Let_def)




lemma py_round_close: "\<bar>of_int (py_round x) - x\<bar> \<le> 1 / 2"
proof -
  have f: "of_int \<lfloor>x\<rfloor> \<le> x" "x < of_int \<lfloor>x\<rfloor> + 1" by linarith+
  consider "x - of_int \<lfloor>x\<rfloor> < 1 / 2" | "1 / 2 < x - of_int \<lfloor>x\<rfloor>"
    | "x - of_int \<lfloor>x\<rfloor> = 1 / 2" by linarith
  then show ?thesis
  proof cases
    case 1
    then have "py_round x = \<lfloor>x\<rfloor>" by (simp add: py_round_def Let_def)
    with 1 f show ?thesis by simp
  next
    case 2
    then have "py_round x = \<lfloor>x\<rfloor> + 1" by (simp add: py_round_def Let_def)
    with 2 f show ?thesis by simp
  next
    case 3
    then have "py_round x = \<lfloor>x\<rfloor> \<or> py_round x = \<lfloor>x\<rfloor> + 1"
      by (simp add: py_round_def Let_def)
    with 3 f show ?thesis by auto
  qed
qed

lemma fading_absent:
  "map_of st ''flags'' = None \<Longrightarrow> fading (JObj st) = Inr False"
  by (simp add: fading_def)

text \<open>
  C9. Turning a light on with brightness \<open>b\<close> sends \<open>round(b * 39.22)\<close>, capped at 10000, as
  \<open>bri\<close>; a push event that reports \<open>round(b * 39.22)\<close> stores that value divided by 39.22,
  which differs from \<open>b\<close> by at most half a vendor unit, \<open>0.5 / 39.22\<close>.
\<close>

theorem brightness_round_trip:
  assumes "kw \<noteq> []"
    and "b = kwargs_get kw ATTR_BRIGHTNESS 255"
    and "v = py_round (b * (3922 / 100))"
    and "map_of m ''load'' = Some (JObj l)"
    and "map_of l ''state'' = Some (JObj st)"
    and "map_of st ''flags'' = None"
    and "map_of st ''bri'' = Some (JNum (of_int v))"
  shows "requests_of (snd (snd (light_async_turn_on net kw self tr)))
           = requests_of tr @ [build_request (light_client self) (LoadTargetState (light_wiser_id self)) PUT
                (Some (JObj [(''bri'', JNum (of_int (if v > 10000 then 10000 else v)))]))]
       \<and> fst (light_update_from_websocket_message (JObj m) self' tr') = Inr ()
       \<and> light_brightness (fst (snd (light_update_from_websocket_message (JObj m) self' tr')))
           = Some (of_int v / (3922 / 100))
       \<and> \<bar>of_int v / (3922 / 100) - b\<bar> \<le> (1 / 2) / (3922 / 100)"
proof (intro conjI)
  show "requests_of (snd (snd (light_async_turn_on net kw self tr)))
           = requests_of tr @ [build_request (light_client self) (LoadTargetState (light_wiser_id self)) PUT
                (Some (JObj [(''bri'', JNum (of_int (if v > 10000 then 10000 else v)))]))]"
    using assms(1-3) send_request_async_trace[of net "light_client self" "LoadTargetState (light_wiser_id self)"
        PUT "Some (JObj [(''bri'', JNum (of_int (if v > 10000 then 10000 else v)))])" tr]
    by (auto simp: light_async_turn_on_def set_light_brightness_async_def Let_def
        split: prod.splits sum.splits)
  have upd: "light_update_from_websocket_message (JObj m) self' tr'
        = (Inr (), self'\<lparr>light_brightness := Some (of_int v / (3922 / 100)),
                           light_is_on := Some (v \<noteq> 0)\<rparr>,
           tr' @ [ScheduleUpdate (light_wiser_id self')])"
    using assms(4-7)
    by (simp add: light_update_from_websocket_message_def fading_absent py_eq_num_def py_div_def)
  show "fst (light_update_from_websocket_message (JObj m) self' tr') = Inr ()"
    using upd by simp
  show "light_brightness (fst (snd (light_update_from_websocket_message (JObj m) self' tr')))
           = Some (of_int v / (3922 / 100))"
    using upd by simp
  have "\<bar>of_int v - b * (3922 / 100)\<bar> \<le> 1 / 2"
    using py_round_close[of "b * (3922 / 100)"] assms(3) by simp
  then have "\<bar>of_int v - b * (3922 / 100)\<bar> / (3922 / 100) \<le> (1 / 2) / (3922 / 100)"
    by (rule divide_right_mono) simp
  moreover have "of_int v / (3922 / 100) - b = (of_int v - b * (3922 / 100)) / (3922 / 100)"
    by (simp add: diff_divide_distrib)
  ultimately show "\<bar>of_int v / (3922 / 100) - b\<bar> \<le> (1 / 2) / (3922 / 100)"
    by (simp only: abs_divide)
qed

theorem brightness_round_trip_witness:
  "requests_of (snd (snd (light_async_turn_on net_ok [(''brightness'', 128)] light3 [])))
     = [build_request client0 (LoadTargetState 3) PUT (Some (JObj [(''bri'', JNum 5020)]))]
   \<and> fst (light_update_from_websocket_message event_bri light3 []) = Inr ()
   \<and> light_brightness (fst (snd (light_update_from_websocket_message event_bri light3 [])))
       = Some (5020 / (3922 / 100))
   \<and> \<bar>5020 / (3922 / 100) - (128::rat)\<bar> \<le> (1 / 2) / (3922 / 100)"
proof -
  have b: "(128::rat) = kwargs_get [(''brightness'', 128)] ATTR_BRIGHTNESS 255"
    by (simp add: kwargs_get_def ATTR_BRIGHTNESS_def)
  have fl: "\<lfloor>(128::rat) * (3922 / 100)\<rfloor> = 5020"
    by (rule floor_unique) simp_all
  have v: "(5020::int) = py_round (128 * (3922 / 100))"
    unfolding py_round_def Let_def fl by simp
  have k: "[(''brightness'', 128::rat)] \<noteq> []" by simp
  have h: "map_of [(''load'', JObj [(''id'', JNum 3), (''state'', JObj [(''bri'', JNum 5020)])])] ''load''
             = Some (JObj [(''id'', JNum 3), (''state'', JObj [(''bri'', JNum 5020)])])"
    "map_of [(''id'', JNum 3), (''state'', JObj [(''bri'', JNum 5020)])] ''state''
             = Some (JObj [(''bri'', JNum 5020)])"
    "map_of [(''bri'', JNum 5020)] ''flags'' = None"
    "map_of [(''bri'', JNum 5020)] ''bri'' = Some (JNum (of_int 5020))"
    by simp_all
  from brightness_round_trip[OF k b v h, of net_ok light3 "[]" light3 "[]"]
  show ?thesis
    unfolding event_bri_def by (simp add: light3_def)
qed

lemma push_update_without_kind_or_state:
  "map_of m ''load'' = None \<Longrightarrow>
     light_update_from_websocket_message (JObj m) l tr
       = (Inr (), l, tr @ [Log DEBUG ''No load in websocket message, skipping update of light with id %s''])"
  "map_of m ''load'' = Some (JObj p) \<Longrightarrow> map_of p ''state'' = None \<Longrightarrow>
     light_update_from_websocket_message (JObj m) l tr
       = (Inr (), l, tr @ [Log DEBUG ''No state in websocket message, skipping update of light with id %s''])"
  "map_of m ''load'' = None \<Longrightarrow>
     cover_update_from_websocket_message (JObj m) c tr
       = (Inr (), c, tr @ [Log DEBUG ''No load in websocket message, skipping update of cover with id %s''])"
  "map_of m ''load'' = Some (JObj p) \<Longrightarrow> map_of p ''state'' = None \<Longrightarrow>
     cover_update_from_websocket_message (JObj m) c tr
       = (Inr (), c, tr @ [Log DEBUG ''No state in websocket message, skipping update of cover with id %s''])"
  "map_of m ''hvacgroup'' = None \<Longrightarrow>
     hvac_update_from_websocket_message (JObj m) g tr
       = (Inr (), g, tr @ [Log DEBUG ''No hvacgroup in websocket message, skipping update of hvacgroup with id %s''])"
  "map_of m ''hvacgroup'' = Some (JObj p) \<Longrightarrow> map_of p ''state'' = None \<Longrightarrow>
     hvac_update_from_websocket_message (JObj m) g tr
       = (Inr (), g, tr @ [Log DEBUG ''No state in websocket message, skipping update of cover with id %s''])"
  by (simp_all add: light_update_from_websocket_message_def cover_update_from_websocket_message_def
      hvac_update_from_websocket_message_def)

lemma light_update_without_bri:
  "map_of m ''load'' = Some (JObj p) \<Longrightarrow> map_of p ''state'' = Some (JObj st) \<Longrightarrow>
   map_of st ''flags'' = None \<Longrightarrow> map_of st ''bri'' = None \<Longrightarrow>
     light_update_from_websocket_message (JObj m) l tr
       = (Inr (), l, tr @ [Log DEBUG ''No bri in websocket message, skipping update of light with id %s''])"
  by (simp add: light_update_from_websocket_message_def fading_def)

text \<open>
  C4. What the push updates do when a field inside \<open>state\<close> is missing. A cover event
  without \<open>level\<close> raises \<open>KeyError\<close> (the cover is left as it was). An HVAC event whose
  state has only \<open>ambient_temperature\<close> overwrites the current temperature and then raises
  \<open>KeyError\<close> for \<open>target_temperature\<close>, the other fields keeping their old values.
  Received over the websocket, that event ends the connection: the supervisor logs the
  exception as unhandled and connects again. Only the light guards its field (\<open>bri\<close>),
  and all three kinds guard the kind key and \<open>state\<close>, as the two lemmas above show.
\<close>

theorem push_event_missing_field_raises:
  "cover_update_from_websocket_message event_no_level cover_half []
     = (Inl (KeyError ''level''), cover_half, [])
   \<and> hvac_update_from_websocket_message event_partial_hvac hvac1 []
     = (Inl (KeyError ''target_temperature''),
        hvac1\<lparr>hvac_current_temperature := Some (JNum (43 / 2))\<rparr>, [])
   \<and> establish_websocket 3 ws_partial [HvacGroup hvac1] []
     = (Pending, [HvacGroup (hvac1\<lparr>hvac_current_temperature := Some (JNum (43 / 2))\<rparr>)],
        [Log INFO ''Creating new websocket connection'', WsConnect, WsRecv,
         Log DEBUG ''Reveived the following message form wiser: %s'',
         Log ERROR ''Unhadled Exception occured in WebSocket loop: %s'',
         Log INFO ''Creating new websocket connection'', WsConnect])"
proof (intro conjI)
  show "cover_update_from_websocket_message event_no_level cover_half []
     = (Inl (KeyError ''level''), cover_half, [])"
    by (simp add: cover_update_from_websocket_message_def event_no_level_def)
  have h: "hvac_update_from_websocket_message event_partial_hvac hvac1 tr
     = (Inl (KeyError ''target_temperature''),
        hvac1\<lparr>hvac_current_temperature := Some (JNum (43 / 2))\<rparr>, tr)" for tr
    by (simp add: hvac_update_from_websocket_message_def update_from_state_def
        event_partial_hvac_def Let_def)
  from h show "hvac_update_from_websocket_message event_partial_hvac hvac1 []
     = (Inl (KeyError ''target_temperature''),
        hvac1\<lparr>hvac_current_temperature := Some (JNum (43 / 2))\<rparr>, [])" .
  have g: "get_wiser_entity_id event_partial_hvac tr = (Inr (JNum 1), tr)" for tr
    by (simp add: get_wiser_entity_id_def event_partial_hvac_def)
  have m: "id_matches (JNum 1) (HvacGroup hvac1)"
    by (simp add: id_matches_def py_eq_num_def hvac1_def)
  have r: "route_message event_partial_hvac [HvacGroup hvac1] tr
     = (Inl (KeyError ''target_temperature''),
        [HvacGroup (hvac1\<lparr>hvac_current_temperature := Some (JNum (43 / 2))\<rparr>)], tr)" for tr
    by (simp add: route_message_def g m h)
  have hm: "handle_websocket_message ws_partial [HvacGroup hvac1] tr
     = (Inl (KeyError ''target_temperature''),
        [HvacGroup (hvac1\<lparr>hvac_current_temperature := Some (JNum (43 / 2))\<rparr>)],
        tr @ [WsRecv, Log DEBUG ''Reveived the following message form wiser: %s''])" for tr
    by (simp add: handle_websocket_message_def ws_partial_def r Let_def)
  have c: "ws_connect ws_partial n = Connected" for n
    by (simp add: ws_partial_def)
  have three: "(3::nat) = Suc (Suc (Suc 0))" by simp
  show "establish_websocket 3 ws_partial [HvacGroup hvac1] []
     = (Pending, [HvacGroup (hvac1\<lparr>hvac_current_temperature := Some (JNum (43 / 2))\<rparr>)],
        [Log INFO ''Creating new websocket connection'', WsConnect, WsRecv,
         Log DEBUG ''Reveived the following message form wiser: %s'',
         Log ERROR ''Unhadled Exception occured in WebSocket loop: %s'',
         Log INFO ''Creating new websocket connection'', WsConnect])"
    unfolding three by (simp add: c hm on_exception_def Let_def)
qed

lemma send_request_async_failed_keeps:
  assumes "\<forall>rq. reply_failed (net (length (requests_of tr)) rq)"
  shows "\<exists>c tr'. send_request_async net self ep meth body tr = (Inl (FellerApiException c), tr')"
  using assms send_request_async_failed[of net tr self ep meth body] by blast

lemma command_failure_after_assignment:
  assumes "\<forall>rq. reply_failed (net (length (requests_of tr)) rq)"
  shows "kw \<noteq> [] \<Longrightarrow> \<exists>c tr'. light_async_turn_on net kw l tr
            = (Inl (FellerApiException c),
               l\<lparr>light_brightness := Some (kwargs_get kw ATTR_BRIGHTNESS 255)\<rparr>, tr')"
    and "\<exists>c tr'. async_open_cover net kw cv tr
            = (Inl (FellerApiException c),
               cv\<lparr>cover_position := Some (kwargs_get kw ATTR_POSITION 100)\<rparr>, tr')"
    and "\<exists>c tr'. async_close_cover net kw cv tr
            = (Inl (FellerApiException c),
               cv\<lparr>cover_position := Some (kwargs_get kw ATTR_POSITION 100)\<rparr>, tr')"
    and "\<exists>c tr'. async_set_cover_position net kw cv tr
            = (Inl (FellerApiException c),
               cv\<lparr>cover_position := Some (kwargs_get kw ATTR_POSITION 100)\<rparr>, tr')"
proof -
  have f: "\<exists>c tr'. send_request_async net self ep meth body tr = (Inl (FellerApiException c), tr')"
    for self ep meth body
    using assms by (rule send_request_async_failed_keeps)
  have fl: "\<exists>c tr'. set_light_brightness_async net self i b tr = (Inl (FellerApiException c), tr')"
    for self i b
    unfolding set_light_brightness_async_def by (rule f)
  have fc: "\<exists>c tr'. set_cover_level_async net self i lv tr = (Inl (FellerApiException c), tr')"
    for self i lv
    unfolding set_cover_level_async_def by (rule f)
  {
    assume k: "kw \<noteq> []"
    let ?b = "kwargs_get kw ATTR_BRIGHTNESS 255"
    let ?v = "py_round (?b * (3922 / 100))"
    have "\<exists>c tr'. light_async_turn_on net kw l tr
            = (Inl (FellerApiException c), l\<lparr>light_brightness := Some ?b\<rparr>, tr')"
    proof (cases "10000 < ?v")
      case True
      from fl obtain c tr' where
        "set_light_brightness_async net (light_client l) (light_wiser_id l) 10000 tr
           = (Inl (FellerApiException c), tr')" by blast
      with k True have "light_async_turn_on net kw l tr
            = (Inl (FellerApiException c), l\<lparr>light_brightness := Some ?b\<rparr>, tr')"
        by (simp add: light_async_turn_on_def Let_def)
      then show ?thesis by blast
    next
      case False
      from fl obtain c tr' where
        "set_light_brightness_async net (light_client l) (light_wiser_id l) (of_int ?v) tr
           = (Inl (FellerApiException c), tr')" by blast
      with k False have "light_async_turn_on net kw l tr
            = (Inl (FellerApiException c), l\<lparr>light_brightness := Some ?b\<rparr>, tr')"
        by (simp add: light_async_turn_on_def Let_def)
      then show ?thesis by blast
    qed
    then show "\<exists>c tr'. light_async_turn_on net kw l tr
            = (Inl (FellerApiException c), l\<lparr>light_brightness := Some ?b\<rparr>, tr')"
      by blast
  }
  let ?p = "kwargs_get kw ATTR_POSITION 100"
  from fc obtain c1 tr1 where
    "set_cover_level_async net (cover_client cv) (cover_wiser_id cv) 0 tr
       = (Inl (FellerApiException c1), tr1)" by blast
  then have "async_open_cover net kw cv tr
       = (Inl (FellerApiException c1), cv\<lparr>cover_position := Some ?p\<rparr>, tr1)"
    by (simp add: async_open_cover_def cover_after_level_request_def Let_def)
  then show "\<exists>c tr'. async_open_cover net kw cv tr
            = (Inl (FellerApiException c), cv\<lparr>cover_position := Some ?p\<rparr>, tr')" by blast
  from fc obtain c2 tr2 where
    "set_cover_level_async net (cover_client cv) (cover_wiser_id cv) 10000 tr
       = (Inl (FellerApiException c2), tr2)" by blast
  then have "async_close_cover net kw cv tr
       = (Inl (FellerApiException c2), cv\<lparr>cover_position := Some ?p\<rparr>, tr2)"
    by (simp add: async_close_cover_def cover_after_level_request_def Let_def)
  then show "\<exists>c tr'. async_close_cover net kw cv tr
            = (Inl (FellerApiException c), cv\<lparr>cover_position := Some ?p\<rparr>, tr')" by blast
  from fc obtain c3 tr3 where
    "set_cover_level_async net (cover_client cv) (cover_wiser_id cv) ((100 - ?p) * 100) tr
       = (Inl (FellerApiException c3), tr3)" by blast
  then have "async_set_cover_position net kw cv tr
       = (Inl (FellerApiException c3), cv\<lparr>cover_position := Some ?p\<rparr>, tr3)"
    by (simp add: async_set_cover_position_def cover_after_level_request_def Let_def)
  then show "\<exists>c tr'. async_set_cover_position net kw cv tr
            = (Inl (FellerApiException c), cv\<lparr>cover_position := Some ?p\<rparr>, tr')" by blast
qed

text \<open>
  C10. The command handlers assign the local value before the request, so a failed request
  leaves the assigned value behind (the lemma above, for the four commands). For
  \<open>async_close_cover\<close> the assigned value is not the requested one: called without a
  position on a half-open cover (position 40) while the network is down, it requests level
  10000 (position 0), raises \<open>FellerApiException\<close> and leaves the position at 100.
\<close>

theorem close_cover_failure_leaves_position_open:
  "async_close_cover net_down [] cover_half []
     = (Inl (FellerApiException FailedWithError),
        cover_half\<lparr>cover_position := Some 100\<rparr>,
        [Log DEBUG ''Sending request to %s'',
         HttpRequest (build_request client0 (LoadTargetState 7) PUT
                        (Some (JObj [(''level'', JNum 10000)]))),
         Log ERROR ''Wiser API request to endpoint %s with method %s failed: %s''])"
  by (simp add: async_close_cover_def set_cover_level_async_def send_request_async_def
      cover_after_level_request_def on_client_error_def net_down_def kwargs_get_def
      cover_half_def Let_def)

subsection \<open>The event router\<close>









subsection \<open>The connection supervisor\<close>

lemma py_in_Exception: "py_in k v = Inl e \<Longrightarrow> is_Exception e"
  by (cases v) auto

lemma py_getitem_Exception: "py_getitem v k = Inl e \<Longrightarrow> is_Exception e"
  by (cases v) (auto split: option.splits)

lemma py_path_Exception: "py_path v ks = Inl e \<Longrightarrow> is_Exception e"
  by (induction ks arbitrary: v) (auto split: sum.splits dest: py_getitem_Exception)

lemma py_div_Exception: "py_div v n = Inl e \<Longrightarrow> is_Exception e"
  by (auto simp: py_div_def split: option.splits)

lemma py_gt_Exception: "py_gt v n = Inl e \<Longrightarrow> is_Exception e"
  by (auto simp: py_gt_def split: option.splits)

lemma fading_Exception: "fading st = Inl e \<Longrightarrow> is_Exception e"
  unfolding fading_def
  by (auto split: sum.splits exn.splits dest: py_getitem_Exception)

lemmas py_Exception = py_in_Exception py_getitem_Exception py_path_Exception py_div_Exception
  py_gt_Exception fading_Exception

lemma light_update_Exception:
  "light_update_from_websocket_message message l tr = (Inl e, l', tr') \<Longrightarrow> is_Exception e"
  unfolding light_update_from_websocket_message_def
  by (auto split: sum.splits bool.splits if_splits dest: py_Exception)

lemma cover_update_Exception:
  "cover_update_from_websocket_message message c tr = (Inl e, c', tr') \<Longrightarrow> is_Exception e"
  unfolding cover_update_from_websocket_message_def
  by (auto simp: Let_def split: sum.splits bool.splits if_splits dest: py_Exception)

lemma update_from_state_Exception:
  "update_from_state st g = (Inl e, g') \<Longrightarrow> is_Exception e"
  unfolding update_from_state_def
  by (auto simp: Let_def split: sum.splits dest: py_Exception)

lemma hvac_update_Exception:
  "hvac_update_from_websocket_message message g tr = (Inl e, g', tr') \<Longrightarrow> is_Exception e"
  unfolding hvac_update_from_websocket_message_def
  by (auto split: sum.splits bool.splits prod.splits dest: py_Exception update_from_state_Exception)

lemma update_Exception:
  "update_from_websocket_message message ent tr = (Inl e, ent', tr') \<Longrightarrow> is_Exception e"
  by (cases ent)
     (auto split: prod.splits dest: light_update_Exception cover_update_Exception
        hvac_update_Exception)

lemma get_wiser_entity_id_Exception:
  "get_wiser_entity_id message tr = (Inl e, tr') \<Longrightarrow> is_Exception e"
  unfolding get_wiser_entity_id_def
  by (auto split: sum.splits bool.splits dest: py_Exception)

lemma route_message_Exception:
  "route_message message ents tr = (Inl e, ents', tr') \<Longrightarrow> is_Exception e"
  unfolding route_message_def
  by (auto simp: Let_def split: sum.splits prod.splits if_splits
      dest: get_wiser_entity_id_Exception update_Exception)

lemma handle_websocket_message_Exception:
  assumes "\<forall>n e. ws_recv ws n = RecvRaises e \<longrightarrow> is_Exception e"
    and "handle_websocket_message ws ents tr = (Inl e, ents', tr')"
  shows "is_Exception e"
  using assms unfolding handle_websocket_message_def
  by (auto simp: Let_def split: recv_reply.splits ping_reply.splits option.splits if_splits
      dest: route_message_Exception)

lemma on_exception_Exception: "is_Exception e \<Longrightarrow> \<exists>tr'. on_exception e tr = Inr tr'"
  by (simp add: on_exception_def)

lemma supervisor_pending:
  assumes c: "\<forall>n e. ws_connect ws n = ConnectRaises e \<longrightarrow> is_Exception e"
    and r: "\<forall>n e. ws_recv ws n = RecvRaises e \<longrightarrow> is_Exception e"
  shows "fst (establish_websocket fuel ws ents tr) = Pending
       \<and> fst (receive_loop fuel ws ents tr) = Pending"
proof (induction fuel arbitrary: ents tr)
  case 0
  show ?case by simp
next
  case (Suc n)
  have "fst (establish_websocket (Suc n) ws ents tr) = Pending"
  proof (cases "ws_connect ws (connects_of (tr @ [Log INFO ''Creating new websocket connection'']))")
    case Connected
    then show ?thesis using Suc by (simp add: Let_def)
  next
    case (ConnectRaises e)
    with c have "is_Exception e" by blast
    then obtain tr3 where
      "on_exception e (tr @ [Log INFO ''Creating new websocket connection'', WsConnect]) = Inr tr3"
      using on_exception_Exception by blast
    with ConnectRaises show ?thesis using Suc by (simp add: Let_def)
  qed
  moreover have "fst (receive_loop (Suc n) ws ents tr) = Pending"
  proof (cases "handle_websocket_message ws ents tr")
    case (fields res ents1 tr1)
    show ?thesis
    proof (cases res)
      case (Inr u)
      with fields show ?thesis using Suc by simp
    next
      case (Inl e)
      with fields r have "is_Exception e"
        using handle_websocket_message_Exception by blast
      then obtain tr2 where "on_exception e tr1 = Inr tr2"
        using on_exception_Exception by blast
      with Inl fields show ?thesis using Suc by simp
    qed
  qed
  ultimately show ?case by simp
qed

lemma connect_failure_retries:
  assumes "\<forall>n. ws_connect ws n = ConnectRaises GaiError
              \<or> ws_connect ws n = ConnectRaises ConnectionRefusedError"
  shows "\<exists>tr'. establish_websocket fuel ws ents tr = (Pending, ents, tr')
           \<and> connects_of tr' = connects_of tr + fuel
           \<and> sleeps_of tr' = sleeps_of tr @ replicate fuel 10"
proof (induction fuel arbitrary: tr)
  case 0
  show ?case by simp
next
  case (Suc n)
  let ?tr2 = "tr @ [Log INFO ''Creating new websocket connection'', WsConnect]"
  from assms consider
      "ws_connect ws (connects_of tr) = ConnectRaises GaiError"
    | "ws_connect ws (connects_of tr) = ConnectRaises ConnectionRefusedError" by blast
  then show ?case
  proof cases
    case 1
    let ?tr3 = "?tr2 @ [Log ERROR ''Websocket connection error, retrying in 10 sec'', Sleep 10]"
    from Suc[of ?tr3] obtain tr' where
      "establish_websocket n ws ents ?tr3 = (Pending, ents, tr')"
      "connects_of tr' = connects_of ?tr3 + n"
      "sleeps_of tr' = sleeps_of ?tr3 @ replicate n 10" by blast
    with 1 have "establish_websocket (Suc n) ws ents tr = (Pending, ents, tr')
           \<and> connects_of tr' = connects_of tr + Suc n
           \<and> sleeps_of tr' = sleeps_of tr @ replicate (Suc n) 10"
      by (simp add: Let_def on_exception_def replicate_append_same)
    then show ?thesis by blast
  next
    case 2
    let ?tr3 = "?tr2 @ [Log ERROR ''Configured host refused connection, retrying in 10 sec'', Sleep 10]"
    from Suc[of ?tr3] obtain tr' where
      "establish_websocket n ws ents ?tr3 = (Pending, ents, tr')"
      "connects_of tr' = connects_of ?tr3 + n"
      "sleeps_of tr' = sleeps_of ?tr3 @ replicate n 10" by blast
    with 2 have "establish_websocket (Suc n) ws ents tr = (Pending, ents, tr')
           \<and> connects_of tr' = connects_of tr + Suc n
           \<and> sleeps_of tr' = sleeps_of tr @ replicate (Suc n) 10"
      by (simp add: Let_def on_exception_def replicate_append_same)
    then show ?thesis by blast
  qed
qed

text \<open>
  C2. The supervisor task is still pending however long it is watched, whatever the
  websocket library does, as long as what \<open>connect\<close> and \<open>recv\<close> raise derives from
  \<open>Exception\<close> (a cancellation from outside does not). When every \<open>connect\<close> fails with a
  DNS error or a refused connection, watching for \<open>fuel\<close> steps sees \<open>fuel\<close> connection
  attempts and \<open>fuel\<close> sleeps of 10 seconds; and one such failure is followed by the error
  log, the sleep of 10 seconds and the next turn of the outer loop.
\<close>

theorem supervisor_never_terminates:
  "((\<forall>n e. ws_connect ws n = ConnectRaises e \<longrightarrow> is_Exception e)
      \<and> (\<forall>n e. ws_recv ws n = RecvRaises e \<longrightarrow> is_Exception e)
     \<longrightarrow> fst (establish_websocket fuel ws ents tr) = Pending)
   \<and> ((\<forall>n. ws_connect ws n = ConnectRaises GaiError
            \<or> ws_connect ws n = ConnectRaises ConnectionRefusedError)
     \<longrightarrow> fst (establish_websocket fuel ws ents tr) = Pending
         \<and> connects_of (snd (snd (establish_websocket fuel ws ents tr))) = connects_of tr + fuel
         \<and> sleeps_of (snd (snd (establish_websocket fuel ws ents tr)))
             = sleeps_of tr @ replicate fuel 10)
   \<and> (ws_connect ws (connects_of tr) = ConnectRaises GaiError
     \<longrightarrow> establish_websocket (Suc fuel) ws ents tr
          = establish_websocket fuel ws ents
              (tr @ [Log INFO ''Creating new websocket connection'', WsConnect,
                     Log ERROR ''Websocket connection error, retrying in 10 sec'', Sleep 10]))
   \<and> (ws_connect ws (connects_of tr) = ConnectRaises ConnectionRefusedError
     \<longrightarrow> establish_websocket (Suc fuel) ws ents tr
          = establish_websocket fuel ws ents
              (tr @ [Log INFO ''Creating new websocket connection'', WsConnect,
                     Log ERROR ''Configured host refused connection, retrying in 10 sec'',
                     Sleep 10]))"
proof (intro conjI impI)
  assume "(\<forall>n e. ws_connect ws n = ConnectRaises e \<longrightarrow> is_Exception e)
      \<and> (\<forall>n e. ws_recv ws n = RecvRaises e \<longrightarrow> is_Exception e)"
  then show "fst (establish_websocket fuel ws ents tr) = Pending"
    using supervisor_pending[of ws fuel ents tr] by blast
next
  assume a: "\<forall>n. ws_connect ws n = ConnectRaises GaiError
            \<or> ws_connect ws n = ConnectRaises ConnectionRefusedError"
  from connect_failure_retries[OF a, of fuel ents tr] obtain tr' where
    e: "establish_websocket fuel ws ents tr = (Pending, ents, tr')"
    and c: "connects_of tr' = connects_of tr + fuel"
    and s: "sleeps_of tr' = sleeps_of tr @ replicate fuel 10" by blast
  show "fst (establish_websocket fuel ws ents tr) = Pending" using e by simp
  show "connects_of (snd (snd (establish_websocket fuel ws ents tr))) = connects_of tr + fuel"
    using e c by simp
  show "sleeps_of (snd (snd (establish_websocket fuel ws ents tr)))
             = sleeps_of tr @ replicate fuel 10"
    using e s by simp
next
  assume "ws_connect ws (connects_of tr) = ConnectRaises GaiError"
  then show "establish_websocket (Suc fuel) ws ents tr
          = establish_websocket fuel ws ents
              (tr @ [Log INFO ''Creating new websocket connection'', WsConnect,
                     Log ERROR ''Websocket connection error, retrying in 10 sec'', Sleep 10])"
    by (simp add: Let_def on_exception_def)
next
  assume "ws_connect ws (connects_of tr) = ConnectRaises ConnectionRefusedError"
  then show "establish_websocket (Suc fuel) ws ents tr
          = establish_websocket fuel ws ents
              (tr @ [Log INFO ''Creating new websocket connection'', WsConnect,
                     Log ERROR ''Configured host refused connection, retrying in 10 sec'',
                     Sleep 10])"
    by (simp add: Let_def on_exception_def)
qed

theorem supervisor_never_terminates_witness:
  "fst (establish_websocket 6 ws_partial [HvacGroup hvac1] []) = Pending
   \<and> fst (establish_websocket 3 ws_dns [] []) = Pending
   \<and> connects_of (snd (snd (establish_websocket 3 ws_dns [] []))) = 3
   \<and> sleeps_of (snd (snd (establish_websocket 3 ws_dns [] []))) = [10, 10, 10]
   \<and> establish_websocket (Suc 2) ws_dns [] []
       = establish_websocket 2 ws_dns []
           [Log INFO ''Creating new websocket connection'', WsConnect,
            Log ERROR ''Websocket connection error, retrying in 10 sec'', Sleep 10]"
proof -
  have p: "(\<forall>n e. ws_connect ws_partial n = ConnectRaises e \<longrightarrow> is_Exception e)
      \<and> (\<forall>n e. ws_recv ws_partial n = RecvRaises e \<longrightarrow> is_Exception e)"
    by (simp add: ws_partial_def)
  have d: "\<forall>n. ws_connect ws_dns n = ConnectRaises GaiError
            \<or> ws_connect ws_dns n = ConnectRaises ConnectionRefusedError"
    and g: "ws_connect ws_dns (connects_of []) = ConnectRaises GaiError"
    by (simp_all add: ws_dns_def)
  from p supervisor_never_terminates[of ws_partial 6 "[HvacGroup hvac1]" "[]"]
  have 1: "fst (establish_websocket 6 ws_partial [HvacGroup hvac1] []) = Pending" by blast
  from d supervisor_never_terminates[of ws_dns 3 "[]" "[]"]
  have 2: "fst (establish_websocket 3 ws_dns [] []) = Pending
         \<and> connects_of (snd (snd (establish_websocket 3 ws_dns [] []))) = connects_of [] + 3
         \<and> sleeps_of (snd (snd (establish_websocket 3 ws_dns [] [])))
             = sleeps_of [] @ replicate 3 10" by blast
  have r: "replicate 3 (10::nat) = [10, 10, 10]" by (simp add: numeral_3_eq_3)
  from g supervisor_never_terminates[of ws_dns 2 "[]" "[]"]
  have 3: "establish_websocket (Suc 2) ws_dns [] []
       = establish_websocket 2 ws_dns []
           ([] @ [Log INFO ''Creating new websocket connection'', WsConnect,
            Log ERROR ''Websocket connection error, retrying in 10 sec'', Sleep 10])" by blast
  from 1 2 3 r show ?thesis by simp
qed

lemma receive_loop_keeps_lost_connection:
  assumes "\<forall>n. ws_recv ws n = RecvRaises ConnectionClosed \<or> ws_recv ws n = RecvRaises TimeoutError"
    and "\<forall>n. \<exists>e. ws_ping ws n = PingRaises e"
  shows "\<exists>tr'. receive_loop fuel ws ents tr = (Pending, ents, tr')
           \<and> connects_of tr' = connects_of tr
           \<and> sleeps_of tr' = sleeps_of tr @ replicate fuel 10"
proof (induction fuel arbitrary: tr)
  case 0
  show ?case by simp
next
  case (Suc n)
  let ?tr1 = "tr @ [WsRecv, WsPing,
                    Log INFO ''Ping error - retrying connection in 10 sec (Ctrl-C to quit)'',
                    Sleep 10]"
  from assms(2) obtain e where p: "ws_ping ws (pings_of (tr @ [WsRecv])) = PingRaises e" by blast
  from assms(1) have "ws_recv ws (recvs_of tr) = RecvRaises ConnectionClosed
      \<or> ws_recv ws (recvs_of tr) = RecvRaises TimeoutError" by blast
  with p have h: "handle_websocket_message ws ents tr = (Inr (), ents, ?tr1)"
    by (auto simp: handle_websocket_message_def Let_def)
  from Suc[of ?tr1] obtain tr' where
    "receive_loop n ws ents ?tr1 = (Pending, ents, tr')"
    "connects_of tr' = connects_of ?tr1"
    "sleeps_of tr' = sleeps_of ?tr1 @ replicate n 10" by blast
  with h have "receive_loop (Suc n) ws ents tr = (Pending, ents, tr')
           \<and> connects_of tr' = connects_of tr
           \<and> sleeps_of tr' = sleeps_of tr @ replicate (Suc n) 10"
    by (simp add: replicate_append_same)
  then show ?case by blast
qed

lemma answered_ping_raises:
  assumes "ws_recv ws (recvs_of tr) = RecvRaises ConnectionClosed
             \<or> ws_recv ws (recvs_of tr) = RecvRaises TimeoutError"
    and "ws_ping ws (pings_of tr) = Pong"
  shows "handle_websocket_message ws ents tr
           = (Inl (UnboundLocalError ''result''), ents,
              tr @ [WsRecv, WsPing, Log INFO ''Ping OK, keeping connection alive''])"
  using assms by (auto simp: handle_websocket_message_def Let_def)

text \<open>
  C1. What the supervisor does after a receive that times out or finds the connection
  closed. When the ping fails too it sleeps 10 seconds and returns to the receive loop of
  the same websocket: watched for four steps on a connection lost for good, it has connected
  once and received, pinged and slept three times, and never connected again. When the ping
  is answered it logs \<open>Ping OK\<close> and then reads the unassigned \<open>result\<close>: the
  \<open>UnboundLocalError\<close> reaches the catch-all handler, which logs it, and the supervisor opens
  a new connection at once.
\<close>

theorem ping_outcomes_swapped:
  "establish_websocket 4 ws_lost [] []
     = (Pending, [],
        [Log INFO ''Creating new websocket connection'', WsConnect,
         WsRecv, WsPing,
         Log INFO ''Ping error - retrying connection in 10 sec (Ctrl-C to quit)'', Sleep 10,
         WsRecv, WsPing,
         Log INFO ''Ping error - retrying connection in 10 sec (Ctrl-C to quit)'', Sleep 10,
         WsRecv, WsPing,
         Log INFO ''Ping error - retrying connection in 10 sec (Ctrl-C to quit)'', Sleep 10])
   \<and> establish_websocket 3 ws_idle [] []
     = (Pending, [],
        [Log INFO ''Creating new websocket connection'', WsConnect,
         WsRecv, WsPing, Log INFO ''Ping OK, keeping connection alive'',
         Log ERROR ''Unhadled Exception occured in WebSocket loop: %s'',
         Log INFO ''Creating new websocket connection'', WsConnect])"
proof (intro conjI)
  have h: "handle_websocket_message ws_lost ents tr
      = (Inr (), ents,
         tr @ [WsRecv, WsPing,
               Log INFO ''Ping error - retrying connection in 10 sec (Ctrl-C to quit)'',
               Sleep 10])" for ents tr
    by (simp add: handle_websocket_message_def ws_lost_def Let_def)
  have c: "ws_connect ws_lost n = Connected" for n by (simp add: ws_lost_def)
  have four: "(4::nat) = Suc (Suc (Suc (Suc 0)))" by simp
  show "establish_websocket 4 ws_lost [] []
     = (Pending, [],
        [Log INFO ''Creating new websocket connection'', WsConnect,
         WsRecv, WsPing,
         Log INFO ''Ping error - retrying connection in 10 sec (Ctrl-C to quit)'', Sleep 10,
         WsRecv, WsPing,
         Log INFO ''Ping error - retrying connection in 10 sec (Ctrl-C to quit)'', Sleep 10,
         WsRecv, WsPing,
         Log INFO ''Ping error - retrying connection in 10 sec (Ctrl-C to quit)'', Sleep 10])"
    unfolding four by (simp add: c h Let_def)
  have i: "handle_websocket_message ws_idle ents tr
      = (Inl (UnboundLocalError ''result''), ents,
         tr @ [WsRecv, WsPing, Log INFO ''Ping OK, keeping connection alive''])" for ents tr
    by (simp add: handle_websocket_message_def ws_idle_def Let_def)
  have d: "ws_connect ws_idle n = Connected" for n by (simp add: ws_idle_def)
  have three: "(3::nat) = Suc (Suc (Suc 0))" by simp
  show "establish_websocket 3 ws_idle [] []
     = (Pending, [],
        [Log INFO ''Creating new websocket connection'', WsConnect,
         WsRecv, WsPing, Log INFO ''Ping OK, keeping connection alive'',
         Log ERROR ''Unhadled Exception occured in WebSocket loop: %s'',
         Log INFO ''Creating new websocket connection'', WsConnect])"
    unfolding three by (simp add: d i on_exception_def Let_def)
qed

end
